theory Spec2Isabelle
  imports Main
begin

section \<open>Model Gateway: the sliding-window rate limiter\<close>

text \<open>
  The class \<open>RateLimiter\<close> of the AI client keeps the timestamps (milliseconds, as
  returned by \<open>Date.now()\<close>) of the admitted requests. The clock reading is an explicit
  argument of each operation; the mutated object is returned.
\<close>

record RateLimiter =
  requests :: "int list"
  maxRequests :: nat
  windowMs :: int

text \<open>The constructor: an argument left out is 10 requests, or 60000 milliseconds.\<close>

definition newRateLimiter :: "nat option \<Rightarrow> int option \<Rightarrow> RateLimiter" where
  "newRateLimiter m w =
     \<lparr>requests = [],
      maxRequests = (case m of None \<Rightarrow> 10 | Some k \<Rightarrow> k),
      windowMs = (case w of None \<Rightarrow> 60000 | Some ms \<Rightarrow> ms)\<rparr>"

text \<open>The exported instance: 10 requests per minute.\<close>

definition rateLimiter :: RateLimiter where
  "rateLimiter = newRateLimiter (Some 10) (Some 60000)"

definition canProceed :: "int \<Rightarrow> RateLimiter \<Rightarrow> bool \<times> RateLimiter" where
  "canProceed now rl =
     (let rs = filter (\<lambda>t. now - t < windowMs rl) (requests rl) in
      if maxRequests rl \<le> length rs then (False, rl\<lparr>requests := rs\<rparr>)
      else (True, rl\<lparr>requests := rs @ [now]\<rparr>))"

text \<open>\<open>Math.min\<close> of no arguments is \<open>Infinity\<close>; every other result is a finite number.\<close>

datatype js_number = Finite int | PosInfinity

fun math_min :: "int list \<Rightarrow> js_number" where
  "math_min [] = PosInfinity"
| "math_min (x # xs) = Finite (fold min xs x)"

definition getWaitTime :: "int \<Rightarrow> RateLimiter \<Rightarrow> js_number" where
  "getWaitTime now rl =
     (if length (requests rl) < maxRequests rl then Finite 0
      else (case math_min (requests rl) of
              PosInfinity \<Rightarrow> PosInfinity
            | Finite oldestRequest \<Rightarrow> Finite (oldestRequest + windowMs rl - now)))"

text \<open>A sequence of \<open>canProceed()\<close> calls at the given clock readings: the answers, in order,
  and the limiter afterwards.\<close>

fun canProceed_seq :: "int list \<Rightarrow> RateLimiter \<Rightarrow> bool list \<times> RateLimiter" where
  "canProceed_seq [] rl = ([], rl)"
| "canProceed_seq (t # ts) rl =
     (case canProceed t rl of (b, rl') \<Rightarrow>
        (case canProceed_seq ts rl' of (bs, rl'') \<Rightarrow> (b # bs, rl'')))"

text \<open>The clock readings of the admitted calls of such a sequence.\<close>

definition admitted :: "int list \<Rightarrow> RateLimiter \<Rightarrow> int list" where
  "admitted ts rl = map fst (filter snd (zip ts (fst (canProceed_seq ts rl))))"

text \<open>How many of the timestamps lie in the window \<open>[s, s + w)\<close>.\<close>

definition in_window :: "int \<Rightarrow> int \<Rightarrow> int list \<Rightarrow> nat" where
  "in_window s w xs = length (filter (\<lambda>t. s \<le> t \<and> t < s + w) xs)"

section \<open>Strings and regular expressions of the JavaScript runtime\<close>

text \<open>
  A JavaScript string is modelled as a \<open>string\<close>: a list of code units below 256. The
  character tests below are those of ECMAScript restricted to that range.
\<close>

definition is_upper :: "char \<Rightarrow> bool" where
  "is_upper c = (of_char c \<in> {65 .. 90 :: nat})"

definition is_lower :: "char \<Rightarrow> bool" where
  "is_lower c = (of_char c \<in> {97 .. 122 :: nat})"

definition is_digit :: "char \<Rightarrow> bool" where
  "is_digit c = (of_char c \<in> {48 .. 57 :: nat})"

text \<open>\<open>\w\<close>: letters, digits and the underscore.\<close>

definition is_word :: "char \<Rightarrow> bool" where
  "is_word c = (is_upper c \<or> is_lower c \<or> is_digit c \<or> c = CHR ''_'')"

text \<open>\<open>\s\<close>: tab, line feed, vertical tab, form feed, carriage return, space, no-break space.\<close>

definition is_space :: "char \<Rightarrow> bool" where
  "is_space c = (of_char c \<in> {9, 10, 11, 12, 13, 32, 160 :: nat})"

text \<open>The line terminators, which \<open>.\<close> does not match.\<close>

definition is_line_terminator :: "char \<Rightarrow> bool" where
  "is_line_terminator c = (of_char c \<in> {10, 13 :: nat})"

text \<open>A letter and its other case differ in the bit of weight 32 only.\<close>

fun set_bit5 :: "bool \<Rightarrow> char \<Rightarrow> char" where
  "set_bit5 b (Char b0 b1 b2 b3 b4 b5 b6 b7) = Char b0 b1 b2 b3 b4 b b6 b7"

definition ascii_lower :: "char \<Rightarrow> char" where
  "ascii_lower c = (if is_upper c then set_bit5 True c else c)"

definition ascii_upper :: "char \<Rightarrow> char" where
  "ascii_upper c = (if is_lower c then set_bit5 False c else c)"

text \<open>\<open>String.prototype.toLowerCase\<close> on code units below 256: the ASCII capitals and the
  Latin-1 capitals \<open>0xC0..0xDE\<close> other than the multiplication sign \<open>0xD7\<close>.\<close>

definition lower_char :: "char \<Rightarrow> char" where
  "lower_char c =
     (let n = (of_char c :: nat) in
      if is_upper c \<or> (192 \<le> n \<and> n \<le> 222 \<and> n \<noteq> 215) then set_bit5 True c else c)"

definition toLowerCase :: "string \<Rightarrow> string" where
  "toLowerCase s = map lower_char s"

text \<open>\<open>String.prototype.trim\<close>: white space and line terminators off both ends.\<close>

definition trim :: "string \<Rightarrow> string" where
  "trim s = rev (dropWhile is_space (rev (dropWhile is_space s)))"

definition startsWith :: "string \<Rightarrow> string \<Rightarrow> bool" where
  "startsWith s p = (take (length p) s = p)"

text \<open>\<open>s.slice(0, n)\<close>.\<close>

definition slice0 :: "string \<Rightarrow> nat \<Rightarrow> string" where
  "slice0 s n = take n s"

subsection \<open>Regular expressions\<close>

text \<open>
  The regular expressions of the source use character classes, concatenation, alternation,
  greedy and lazy repetition, capturing groups, the anchors \<open>^\<close> and \<open>$\<close> and the word
  boundary \<open>\b\<close>. \<open>r+\<close> is \<open>r\<close> followed by \<open>r*\<close>, and \<open>r?\<close> is \<open>r\<close> or else nothing.
\<close>

datatype citem = Chr char | Range char char | Space | NonSpace | Word | Digit

datatype regex =
    Eps
  | Sym "citem list"
  | NSym "citem list"
  | Dot
  | Cat regex regex
  | Alt regex regex
  | Star regex
  | LazyStar regex
  | Group nat regex
  | Bol
  | Eol
  | WordB

definition Plus :: "regex \<Rightarrow> regex" where
  "Plus r = Cat r (Star r)"

definition Opt :: "regex \<Rightarrow> regex" where
  "Opt r = Alt r Eps"

text \<open>A literal string, and a sequence of expressions.\<close>

definition lit :: "string \<Rightarrow> regex" where
  "lit s = foldr (\<lambda>c r. Cat (Sym [Chr c]) r) s Eps"

definition seq :: "regex list \<Rightarrow> regex" where
  "seq rs = foldr Cat rs Eps"

definition alts :: "regex \<Rightarrow> regex list \<Rightarrow> regex" where
  "alts r rs = foldr Alt (butlast (r # rs)) (last (r # rs))"

text \<open>With the \<open>i\<close> flag (\<open>ci\<close>) a letter matches in either case. Only ASCII letters occur in
  the patterns, and a code unit outside ASCII never folds to one inside.\<close>

definition in_range :: "char \<Rightarrow> char \<Rightarrow> char \<Rightarrow> bool" where
  "in_range a b c = ((of_char a :: nat) \<le> of_char c \<and> (of_char c :: nat) \<le> of_char b)"

fun imatch :: "bool \<Rightarrow> citem \<Rightarrow> char \<Rightarrow> bool" where
  "imatch ci (Chr a) c = (if ci then ascii_lower c = ascii_lower a else c = a)"
| "imatch ci (Range a b) c =
     (in_range a b c \<or> (ci \<and> (in_range a b (ascii_lower c) \<or> in_range a b (ascii_upper c))))"
| "imatch ci Space c = is_space c"
| "imatch ci NonSpace c = (\<not> is_space c)"
| "imatch ci Word c = is_word c"
| "imatch ci Digit c = is_digit c"

definition cmatch :: "bool \<Rightarrow> citem list \<Rightarrow> char \<Rightarrow> bool" where
  "cmatch ci cs c = list_ex (\<lambda>i. imatch ci i c) cs"

text \<open>
  The matcher state: the input behind the current position (reversed, for \<open>^\<close> and \<open>\b\<close>),
  the input from the current position on, and the captures recorded so far (latest first).
\<close>

record mstate =
  behind :: string
  rest :: string
  caps :: "(nat \<times> string) list"

definition advance :: "mstate \<Rightarrow> mstate" where
  "advance st = st\<lparr>behind := hd (rest st) # behind st, rest := tl (rest st)\<rparr>"

definition at_word_boundary :: "mstate \<Rightarrow> bool" where
  "at_word_boundary st =
     ((case behind st of [] \<Rightarrow> False | a # _ \<Rightarrow> is_word a) \<noteq>
      (case rest st of [] \<Rightarrow> False | b # _ \<Rightarrow> is_word b))"

text \<open>
  The matcher is the backtracking matcher of ECMAScript written with an explicit
  continuation: a stack of what remains to be matched. \<open>Loop n r\<close> and \<open>LazyLoop n r\<close> come
  after one iteration of \<open>r*\<close> or \<open>r*?\<close> begun with \<open>n\<close> characters left: an iteration that
  consumed nothing fails. \<open>EndGroup i n\<close> closes capture \<open>i\<close>, opened with \<open>n\<close> characters
  left. The result is the first success in the engine's order of preference.
\<close>

datatype kont = Rx regex | Loop nat regex | LazyLoop nat regex | EndGroup nat nat

fun rsize :: "regex \<Rightarrow> nat" where
  "rsize (Cat a b) = Suc (rsize a + rsize b)"
| "rsize (Alt a b) = Suc (rsize a + rsize b)"
| "rsize (Star r) = rsize r + 3"
| "rsize (LazyStar r) = rsize r + 3"
| "rsize (Group i r) = rsize r + 2"
| "rsize _ = 1"

fun ksize :: "nat \<Rightarrow> kont \<Rightarrow> nat" where
  "ksize l (Rx r) = rsize r"
| "ksize l (Loop n r) = (if l < n then rsize r + 4 else 1)"
| "ksize l (LazyLoop n r) = (if l < n then rsize r + 4 else 1)"
| "ksize l (EndGroup i n) = 1"

function (sequential) run :: "bool \<Rightarrow> kont list \<Rightarrow> mstate \<Rightarrow> mstate option" where
  "run ci [] st = Some st"
| "run ci (Rx Eps # k) st = run ci k st"
| "run ci (Rx (Sym cs) # k) st =
     (case rest st of [] \<Rightarrow> None
      | c # _ \<Rightarrow> if cmatch ci cs c then run ci k (advance st) else None)"
| "run ci (Rx (NSym cs) # k) st =
     (case rest st of [] \<Rightarrow> None
      | c # _ \<Rightarrow> if cmatch ci cs c then None else run ci k (advance st))"
| "run ci (Rx Dot # k) st =
     (case rest st of [] \<Rightarrow> None
      | c # _ \<Rightarrow> if is_line_terminator c then None else run ci k (advance st))"
| "run ci (Rx (Cat a b) # k) st = run ci (Rx a # Rx b # k) st"
| "run ci (Rx (Alt a b) # k) st =
     (case run ci (Rx a # k) st of Some r \<Rightarrow> Some r | None \<Rightarrow> run ci (Rx b # k) st)"
| "run ci (Rx (Star r) # k) st =
     (case run ci (Rx r # Loop (length (rest st)) r # k) st of
        Some r \<Rightarrow> Some r | None \<Rightarrow> run ci k st)"
| "run ci (Loop n r # k) st =
     (if length (rest st) < n then run ci (Rx (Star r) # k) st else None)"
| "run ci (Rx (LazyStar r) # k) st =
     (case run ci k st of
        Some r \<Rightarrow> Some r | None \<Rightarrow> run ci (Rx r # LazyLoop (length (rest st)) r # k) st)"
| "run ci (LazyLoop n r # k) st =
     (if length (rest st) < n then run ci (Rx (LazyStar r) # k) st else None)"
| "run ci (Rx (Group i r) # k) st = run ci (Rx r # EndGroup i (length (rest st)) # k) st"
| "run ci (EndGroup i n # k) st =
     run ci k (st\<lparr>caps := (i, rev (take (n - length (rest st)) (behind st))) # caps st\<rparr>)"
| "run ci (Rx Bol # k) st = (if behind st = [] then run ci k st else None)"
| "run ci (Rx Eol # k) st = (if rest st = [] then run ci k st else None)"
| "run ci (Rx WordB # k) st = (if at_word_boundary st then run ci k st else None)"
  by pat_completeness auto
termination
  by (relation "measures [\<lambda>(ci, k, st). length (rest st),
                          \<lambda>(ci, k, st). sum_list (map (ksize (length (rest st))) k)]")
     (auto simp: advance_def)

text \<open>
  \<open>RegExp.prototype.exec\<close> from index 0: the leftmost start position at which the pattern
  matches. The result is the text behind the match, the matched text and the captures.
\<close>

record rmatch =
  index_text :: string
  match0 :: string
  groups :: "(nat \<times> string) list"

fun exec_from :: "bool \<Rightarrow> regex \<Rightarrow> string \<Rightarrow> string \<Rightarrow> rmatch option" where
  "exec_from ci r pre s =
     (case run ci [Rx r] \<lparr>behind = pre, rest = s, caps = []\<rparr> of
        Some st \<Rightarrow> Some \<lparr>index_text = rev pre, match0 = take (length s - length (rest st)) s,
                         groups = caps st\<rparr>
      | None \<Rightarrow> (case s of [] \<Rightarrow> None | c # cs \<Rightarrow> exec_from ci r (c # pre) cs))"

definition exec :: "bool \<Rightarrow> regex \<Rightarrow> string \<Rightarrow> rmatch option" where
  "exec ci r s = exec_from ci r [] s"

text \<open>\<open>pattern.test(s)\<close> with \<open>lastIndex\<close> reset to 0.\<close>

definition test :: "bool \<Rightarrow> regex \<Rightarrow> string \<Rightarrow> bool" where
  "test ci r s = (exec ci r s \<noteq> None)"

text \<open>\<open>match[i]\<close> for a capturing group: \<open>None\<close> is \<open>undefined\<close> (the group took no part).\<close>

definition group :: "rmatch \<Rightarrow> nat \<Rightarrow> string option" where
  "group m i = map_of (groups m) i"

section \<open>Safety Gate\<close>

text \<open>
  The blocked and the flagged pattern tables of the safety filter, in source order. Every
  pattern carries the flags \<open>g\<close> and \<open>i\<close>; \<open>lastIndex\<close> is reset before each test, so each
  test starts at index 0.
\<close>

definition ws :: regex where
  "ws = Sym [Space]"

definition chr :: "char \<Rightarrow> regex" where
  "chr c = Sym [Chr c]"

text \<open>The three quote characters \<open>'\<close>, \<open>"\<close> and the backtick.\<close>

definition quote_chars :: "citem list" where
  "quote_chars = [Chr (CHR 0x27), Chr (CHR 0x22), Chr (CHR 0x60)]"

definition BLOCKED_PATTERNS :: "(regex \<times> string) list" where
  "BLOCKED_PATTERNS =
    [(seq [lit ''fetch'', Star ws, chr CHR ''(''], ''Network requests are not allowed''),
     (lit ''XMLHttpRequest'', ''Network requests are not allowed''),
     (seq [lit ''.ajax'', Star ws, chr CHR ''(''], ''Network requests are not allowed''),
     (lit ''axios.'', ''Network requests are not allowed''),
     (lit ''navigator.sendBeacon'', ''Network requests are not allowed''),
     (lit ''WebSocket'', ''WebSocket connections are not allowed''),
     (lit ''document.cookie'', ''Cookie access is not allowed''),
     (lit ''localStorage'', ''localStorage access is not allowed''),
     (lit ''sessionStorage'', ''sessionStorage access is not allowed''),
     (lit ''indexedDB'', ''IndexedDB access is not allowed''),
     (lit ''caches.'', ''Cache API access is not allowed''),
     (seq [lit ''eval'', Star ws, chr CHR ''(''], ''eval() is not allowed''),
     (seq [lit ''Function'', Star ws, chr CHR ''(''], ''Function constructor is not allowed''),
     (seq [lit ''setTimeout'', Star ws, chr CHR ''('', Star ws, Sym quote_chars],
        ''setTimeout with string argument is not allowed''),
     (seq [lit ''setInterval'', Star ws, chr CHR ''('', Star ws, Sym quote_chars],
        ''setInterval with string argument is not allowed''),
     (lit ''<script'', ''Script injection is not allowed''),
     (lit ''javascript:'', ''javascript: URLs are not allowed''),
     (lit ''data:text/html'', ''data: HTML URLs are not allowed''),
     (seq [lit ''chrome.'', Plus (Sym [Word])],
        ''Chrome extension APIs are not allowed in injected code''),
     (seq [lit ''browser.'', Plus (Sym [Word])],
        ''Browser APIs are not allowed in injected code'')]"

definition FLAGGED_PATTERNS :: "(regex \<times> string) list" where
  "FLAGGED_PATTERNS =
    [(seq [WordB,
           Group 1 (alts (lit ''pay'') [lit ''purchase'', lit ''buy'', lit ''checkout'',
                      lit ''order'', lit ''subscribe'', lit ''billing'']),
           WordB],
        ''This action involves a payment or purchase''),
     (seq [WordB,
           Group 1 (alts (lit ''delete'') [lit ''remove'', lit ''cancel'', lit ''unsubscribe'',
                      seq [lit ''close'', Star ws, lit ''account''], lit ''deactivate'']),
           WordB],
        ''This action may delete or remove data''),
     (seq [WordB,
           Group 1 (alts (lit ''password'') [seq [lit ''credit'', Star ws, lit ''card''],
                      lit ''ssn'', seq [lit ''social'', Star ws, lit ''security'']]),
           WordB],
        ''This action involves sensitive data''),
     (seq [lit ''.submit'', Star ws, chr CHR ''('', Star ws, chr CHR '')''],
        ''This action will submit a form'')]"

datatype action_type = Click | Fill | Scroll | Navigate | Extract | Modify | OtherType string

record SafetyCheckResult =
  safe :: bool
  blocked :: "string option"
  blockedReason :: "string option"
  requiresConfirmation :: "bool option"
  confirmationMessage :: "string option"
  flaggedPatterns :: "string list option"

text \<open>\<open>code.match(pattern)?.[0] || 'unknown'\<close>: the first match, unless it is missing or empty.\<close>

definition blocked_fragment :: "regex \<Rightarrow> string \<Rightarrow> string" where
  "blocked_fragment p code =
     (case exec True p code of
        None \<Rightarrow> ''unknown''
      | Some m \<Rightarrow> if match0 m = [] then ''unknown'' else match0 m)"

definition unsafe_verdict :: "regex \<times> string \<Rightarrow> string \<Rightarrow> SafetyCheckResult" where
  "unsafe_verdict rule code =
     \<lparr>safe = False, blocked = Some (blocked_fragment (fst rule) code),
      blockedReason = Some (snd rule), requiresConfirmation = None,
      confirmationMessage = None, flaggedPatterns = None\<rparr>"

text \<open>
  The safety check is instrumented with the list of the rules whose pattern was tested,
  in the order of the tests: \<open>BlockedRule i\<close> is entry \<open>i\<close> of the blocked table,
  \<open>FlaggedRule i\<close> entry \<open>i\<close> of the flagged table.
\<close>

datatype rule_ref = BlockedRule nat | FlaggedRule nat

text \<open>The first loop: it returns at the first blocked pattern that matches.\<close>

fun check_blocked ::
  "(regex \<times> string) list \<Rightarrow> nat \<Rightarrow> string \<Rightarrow> SafetyCheckResult option \<times> rule_ref list" where
  "check_blocked [] i code = (None, [])"
| "check_blocked (rule # rules) i code =
     (if test True (fst rule) code then (Some (unsafe_verdict rule code), [BlockedRule i])
      else (case check_blocked rules (Suc i) code of (r, tr) \<Rightarrow> (r, BlockedRule i # tr)))"

text \<open>The second loop: every flagged pattern is tested and the messages accumulate.\<close>

fun check_flagged ::
  "(regex \<times> string) list \<Rightarrow> nat \<Rightarrow> string \<Rightarrow> string list \<times> rule_ref list" where
  "check_flagged [] i code = ([], [])"
| "check_flagged (rule # rules) i code =
     (case check_flagged rules (Suc i) code of (flagged, tr) \<Rightarrow>
        ((if test True (fst rule) code then [snd rule] else []) @ flagged, FlaggedRule i # tr))"

text \<open>\<open>Array.prototype.join\<close>.\<close>

fun join :: "string \<Rightarrow> string list \<Rightarrow> string" where
  "join sep [] = []"
| "join sep [x] = x"
| "join sep (x # y # ys) = x @ sep @ join sep (y # ys)"

definition newline :: char where
  "newline = CHR 0x0A"

definition checkSafety_traced ::
  "string \<Rightarrow> action_type \<Rightarrow> SafetyCheckResult \<times> rule_ref list" where
  "checkSafety_traced code actionType =
     (case check_blocked BLOCKED_PATTERNS 0 code of
        (Some verdict, tr) \<Rightarrow> (verdict, tr)
      | (None, tr) \<Rightarrow>
          (case check_flagged FLAGGED_PATTERNS 0 code of (flagged, tr') \<Rightarrow>
             (if 0 < length flagged then
                \<lparr>safe = True, blocked = None, blockedReason = None,
                 requiresConfirmation = Some True,
                 confirmationMessage = Some (''This action has been flagged for review:'' @
                    [newline] @ ''- '' @ join (newline # ''- '') flagged @
                    [newline, newline] @ ''Do you want to proceed?''),
                 flaggedPatterns = Some flagged\<rparr>
              else
                \<lparr>safe = True, blocked = None, blockedReason = None,
                 requiresConfirmation = None, confirmationMessage = None,
                 flaggedPatterns = None\<rparr>,
              tr @ tr')))"

definition checkSafety :: "string \<Rightarrow> action_type \<Rightarrow> SafetyCheckResult" where
  "checkSafety code actionType = fst (checkSafety_traced code actionType)"

text \<open>An expression that consumes at least one character wherever it matches: it begins
  with a character class.\<close>

fun consuming :: "regex \<Rightarrow> bool" where
  "consuming (Sym cs) = True"
| "consuming (NSym cs) = True"
| "consuming Dot = True"
| "consuming (Cat a b) = consuming a"
| "consuming (Group i r) = consuming r"
| "consuming _ = False"

section \<open>Pattern Matcher: the fast path\<close>

text \<open>An exception of the runtime: \<open>Error\<close>, \<open>TypeError\<close> or \<open>SyntaxError\<close>, with its message.
  A function that can throw, or an asynchronous function whose promise can reject, returns
  \<open>js_error + 'a\<close>.\<close>

datatype js_error = Error string | TypeError string | SyntaxError string

fun error_message :: "js_error \<Rightarrow> string" where
  "error_message (Error m) = m"
| "error_message (TypeError m) = m"
| "error_message (SyntaxError m) = m"

text \<open>The type \<open>FastPathAction\<close>; \<open>FP_other\<close> stands for a value outside the declared union,
  which the dispatcher's \<open>default\<close> branch answers.\<close>

datatype FastPathAction =
  FP_scroll | FP_navigate | FP_reload | FP_clickByText | FP_goBack | FP_goForward
  | FP_other string

record FastPathResult =
  matched :: bool
  action :: "FastPathAction option"
  params :: "(string \<times> string) list option"

text \<open>\<open>match[i]\<close> where the source uses it as a string: a group that took no part is
  \<open>undefined\<close>, and calling a method on it throws.\<close>

definition capture :: "rmatch \<Rightarrow> nat \<Rightarrow> js_error + string" where
  "capture m i =
     (case group m i of
        None \<Rightarrow> Inl (TypeError ''Cannot read properties of undefined'')
      | Some s \<Rightarrow> Inr s)"

text \<open>\<open>x || d\<close> for an optional string: the default replaces \<open>undefined\<close> and the empty string.\<close>

definition or_default :: "string option \<Rightarrow> string \<Rightarrow> string" where
  "or_default x d = (case x of None \<Rightarrow> d | Some s \<Rightarrow> if s = [] then d else s)"

definition alnum :: "citem list" where
  "alnum = [Range CHR ''a'' CHR ''z'', Range CHR ''A'' CHR ''Z'', Range CHR ''0'' CHR ''9'']"

definition quotes2 :: "citem list" where
  "quotes2 = [Chr (CHR 0x22), Chr (CHR 0x27)]"

text \<open>The common prefix of the two navigation patterns:
  \<open>^(?:.*?\s+)?(?:navigate|go|open)(?:\s+to)?\<close>.\<close>

definition navigate_prefix :: "regex list" where
  "navigate_prefix =
     [Bol, Opt (seq [LazyStar Dot, Plus ws]),
      alts (lit ''navigate'') [lit ''go'', lit ''open''],
      Opt (seq [Plus ws, lit ''to''])]"

type_synonym FastPathRule =
  "regex \<times> FastPathAction \<times> (rmatch \<Rightarrow> js_error + (string \<times> string) list) option"

definition direction_params :: "string option \<Rightarrow> rmatch \<Rightarrow> js_error + (string \<times> string) list" where
  "direction_params amount m =
     (case capture m 1 of
        Inl e \<Rightarrow> Inl e
      | Inr d \<Rightarrow> Inr ((''direction'', toLowerCase d) #
                     (case amount of None \<Rightarrow> [] | Some a \<Rightarrow> [(''amount'', a)])))"

definition single_param :: "string \<Rightarrow> rmatch \<Rightarrow> js_error + (string \<times> string) list" where
  "single_param name m =
     (case capture m 1 of Inl e \<Rightarrow> Inl e | Inr v \<Rightarrow> Inr [(name, v)])"

definition FAST_PATH_RULES :: "FastPathRule list" where
  "FAST_PATH_RULES =
    [(seq [Bol, lit ''scroll'', Plus ws, Group 1 (Alt (lit ''down'') (lit ''up'')),
           Opt (seq [Plus ws, Group 2 (Plus (Sym [Digit]))]), Eol],
      FP_scroll, Some (\<lambda>m. direction_params (Some (or_default (group m 2) ''400'')) m)),
     (seq [Bol, lit ''scroll'', Plus ws, lit ''to'', Plus ws,
           Group 1 (Alt (lit ''top'') (lit ''bottom'')), Eol],
      FP_scroll, Some (direction_params None)),
     (seq [Bol, lit ''page'', Plus ws, Group 1 (Alt (lit ''down'') (lit ''up'')), Eol],
      FP_scroll, Some (direction_params (Some ''800''))),
     (seq [Bol, lit ''go'', Plus ws, lit ''back'', Eol], FP_goBack, None),
     (seq [Bol, lit ''go'', Plus ws, lit ''forward'', Eol], FP_goForward, None),
     (seq [Bol, Group 1 (Alt (lit ''refresh'') (lit ''reload'')),
           Opt (Group 2 (seq [Plus ws, lit ''page''])), Eol],
      FP_reload, None),
     (seq (navigate_prefix @
           [Opt (seq [lit ''the'', Plus ws]), Opt (seq [lit ''website'', Plus ws]),
            Group 1 (seq [Sym alnum, Star (Sym (Chr CHR ''-'' # alnum)),
                          Plus (seq [chr CHR ''.'', Sym alnum, Star (Sym (Chr CHR ''-'' # alnum))]),
                          Opt (seq [chr CHR ''/'', Star (Sym [NonSpace])])]),
            Eol]),
      FP_navigate, Some (single_param ''url'')),
     (seq (navigate_prefix @
           [Group 1 (seq [lit ''http'', Opt (chr CHR ''s''), lit ''://'', Plus (Sym [NonSpace])]),
            Eol]),
      FP_navigate, Some (single_param ''url'')),
     (seq [Bol, lit ''click'', Plus ws, Sym quotes2, Group 1 (Plus (NSym quotes2)),
           Sym quotes2, Eol],
      FP_clickByText, Some (single_param ''text'')),
     (seq [Bol, lit ''click'', Plus ws, lit ''on'', Plus ws, Sym quotes2,
           Group 1 (Plus (NSym quotes2)), Sym quotes2, Eol],
      FP_clickByText, Some (single_param ''text''))]"

text \<open>The loop of \<open>checkFastPath\<close>: the first rule whose pattern matches decides.\<close>

fun first_rule :: "FastPathRule list \<Rightarrow> string \<Rightarrow> js_error + FastPathResult" where
  "first_rule [] s = Inr \<lparr>matched = False, action = None, params = None\<rparr>"
| "first_rule ((p, a, extractParams) # rules) s =
     (case exec True p s of
        None \<Rightarrow> first_rule rules s
      | Some m \<Rightarrow>
          (case extractParams of
             None \<Rightarrow> Inr \<lparr>matched = True, action = Some a, params = Some []\<rparr>
           | Some f \<Rightarrow>
               (case f m of
                  Inl e \<Rightarrow> Inl e
                | Inr ps \<Rightarrow> Inr \<lparr>matched = True, action = Some a, params = Some ps\<rparr>)))"

definition checkFastPath :: "string \<Rightarrow> js_error + FastPathResult" where
  "checkFastPath command = first_rule FAST_PATH_RULES (trim command)"

section \<open>The page surface and the execution primitives\<close>

text \<open>
  The page of a tab is an external collaborator. An element is what the injected scripts
  read of it; the queries of the document are functions of the surface. \<open>textContent\<close>,
  \<open>value\<close> and \<open>innerText\<close> are \<open>None\<close> where the property is \<open>null\<close> or \<open>undefined\<close>.
\<close>

record element =
  node :: nat
  textContent :: "string option"
  attributes :: "(string \<times> string) list"
  "value" :: "string option"
  innerText :: "string option"
  outline :: string

definition getAttribute :: "element \<Rightarrow> string \<Rightarrow> string option" where
  "getAttribute el name = map_of (attributes el) name"

text \<open>
  \<open>chrome.scripting.executeScript\<close> either rejects, or resolves with no result for the
  frame, or runs the injected function in the page and resolves with its result.
  \<open>chrome.tabs.update\<close> and \<open>chrome.tabs.reload\<close> reject when \<open>tabs_failure\<close> is set.
\<close>

datatype injection = Rejects string | NoResult | Runs

record surface =
  injection :: injection
  querySelectorAll :: "string \<Rightarrow> element list"
  querySelector :: "string \<Rightarrow> element option"
  body :: element
  scrollHeight :: int
  tabs_failure :: "string option"

text \<open>
  Everything a function does to the outside is recorded as a list of effects, in order.
  A scroll distance is \<open>None\<close> when it is \<open>NaN\<close>. \<open>Deferred ms e\<close> is an effect scheduled
  with \<open>setTimeout\<close>. \<open>ModelRequest\<close> is a request to a remote model provider: the URL and
  the model, system prompt and user message sent.
\<close>

datatype effect =
    WindowScrollBy "int option"
  | WindowScrollTo int
  | ScrollIntoView nat
  | SetOutline nat string
  | ClickNode nat
  | Deferred nat effect
  | HistoryBack
  | HistoryForward
  | TabsReload nat
  | TabsUpdate nat string
  | ModelRequest string string string string

fun is_model_request :: "effect \<Rightarrow> bool" where
  "is_model_request (ModelRequest url model system user) = True"
| "is_model_request (Deferred ms e) = is_model_request e"
| "is_model_request _ = False"

definition executeScript ::
  "surface \<Rightarrow> (surface \<Rightarrow> (js_error + 'r) \<times> effect list) \<Rightarrow> (js_error + 'r option) \<times> effect list" where
  "executeScript sf func =
     (case injection sf of
        Rejects msg \<Rightarrow> (Inl (Error msg), [])
      | NoResult \<Rightarrow> (Inr None, [])
      | Runs \<Rightarrow>
          (case func sf of
             (Inl e, es) \<Rightarrow> (Inl e, es)
           | (Inr r, es) \<Rightarrow> (Inr (Some r), es)))"

record ExecutionResult =
  success :: bool
  message :: "string option"
  error :: "string option"
  actualResult :: "string option"

definition succeeded :: "string \<Rightarrow> ExecutionResult" where
  "succeeded msg = \<lparr>success = True, message = Some msg, error = None, actualResult = None\<rparr>"

definition failed :: "string \<Rightarrow> ExecutionResult" where
  "failed err = \<lparr>success = False, message = None, error = Some err, actualResult = None\<rparr>"

text \<open>A template literal prints \<open>undefined\<close> for a missing value.\<close>

definition shown :: "string option \<Rightarrow> string" where
  "shown x = (case x of None \<Rightarrow> ''undefined'' | Some s \<Rightarrow> s)"

text \<open>\<open>parseInt(s, 10)\<close>: leading white space, an optional sign, then the longest run of
  digits; \<open>None\<close> is \<open>NaN\<close>.\<close>

definition digits_value :: "string \<Rightarrow> int" where
  "digits_value ds = foldl (\<lambda>n c. 10 * n + (int (of_char c) - 48)) 0 ds"

definition parseInt10 :: "string \<Rightarrow> int option" where
  "parseInt10 s =
     (let t = dropWhile is_space s;
          neg = (t \<noteq> [] \<and> hd t = CHR ''-'');
          u = (if t \<noteq> [] \<and> (hd t = CHR ''-'' \<or> hd t = CHR ''+'') then tl t else t);
          ds = takeWhile is_digit u
      in if ds = [] then None else Some (if neg then - digits_value ds else digits_value ds))"

subsection \<open>The primitives of the fast path\<close>

text \<open>The function injected by the fast path's \<open>executeScroll\<close>: the direction is compared
  as it is.\<close>

definition fastPath_scroll_script :: "string option \<Rightarrow> int option \<Rightarrow> surface \<Rightarrow> (js_error + unit) \<times> effect list" where
  "fastPath_scroll_script dir amt sf =
     (Inr (),
      if dir = Some ''down'' then [WindowScrollBy amt]
      else if dir = Some ''up'' then [WindowScrollBy (map_option uminus amt)]
      else if dir = Some ''top'' then [WindowScrollTo 0]
      else if dir = Some ''bottom'' then [WindowScrollTo (scrollHeight sf)]
      else [])"

definition fastPath_executeScroll ::
  "(string \<times> string) list \<Rightarrow> nat \<Rightarrow> surface \<Rightarrow> (js_error + ExecutionResult) \<times> effect list" where
  "fastPath_executeScroll ps tabId sf =
     (let direction = map_of ps ''direction'';
          amount = map_of ps ''amount'';
          scrollAmount = parseInt10 (or_default amount ''400'')
      in case executeScript sf (fastPath_scroll_script direction scrollAmount) of
           (Inl e, es) \<Rightarrow> (Inl e, es)
         | (Inr results, es) \<Rightarrow> (Inr (succeeded (''Scrolled '' @ shown direction)), es))"

definition executeGoBack :: "nat \<Rightarrow> surface \<Rightarrow> (js_error + ExecutionResult) \<times> effect list" where
  "executeGoBack tabId sf =
     (case executeScript sf (\<lambda>sf. (Inr (), [HistoryBack])) of
        (Inl e, es) \<Rightarrow> (Inl e, es)
      | (Inr results, es) \<Rightarrow> (Inr (succeeded ''Navigated back''), es))"

definition executeGoForward :: "nat \<Rightarrow> surface \<Rightarrow> (js_error + ExecutionResult) \<times> effect list" where
  "executeGoForward tabId sf =
     (case executeScript sf (\<lambda>sf. (Inr (), [HistoryForward])) of
        (Inl e, es) \<Rightarrow> (Inl e, es)
      | (Inr results, es) \<Rightarrow> (Inr (succeeded ''Navigated forward''), es))"

definition executeReload :: "nat \<Rightarrow> surface \<Rightarrow> (js_error + ExecutionResult) \<times> effect list" where
  "executeReload tabId sf =
     (case tabs_failure sf of
        Some msg \<Rightarrow> (Inl (Error msg), [])
      | None \<Rightarrow> (Inr (succeeded ''Page reloaded''), [TabsReload tabId]))"

text \<open>\<open>url.startsWith\<close> throws when the parameters hold no \<open>url\<close>.\<close>

definition fastPath_executeNavigate ::
  "(string \<times> string) list \<Rightarrow> nat \<Rightarrow> surface \<Rightarrow> (js_error + ExecutionResult) \<times> effect list" where
  "fastPath_executeNavigate ps tabId sf =
     (case map_of ps ''url'' of
        None \<Rightarrow> (Inl (TypeError ''Cannot read properties of undefined''), [])
      | Some url0 \<Rightarrow>
          (let url = (if \<not> startsWith url0 ''http://'' \<and> \<not> startsWith url0 ''https://''
                      then ''https://'' @ url0 else url0)
           in case tabs_failure sf of
                Some msg \<Rightarrow> (Inl (Error msg), [])
              | None \<Rightarrow> (Inr (succeeded (''Navigating to '' @ url)), [TabsUpdate tabId url])))"

text \<open>The result of the function injected by \<open>executeClickByText\<close>.\<close>

record click_outcome =
  click_success :: bool
  found :: bool
  click_error :: "string option"

definition clickable_selector :: string where
  \<open>clickable_selector = ''button, a, [role="button"], input[type="submit"], input[type="button"]''\<close>

definition text_matches :: "string \<Rightarrow> element \<Rightarrow> bool" where
  "text_matches searchText el =
     (let elText = (case textContent el of None \<Rightarrow> [] | Some t \<Rightarrow> trim t);
          ariaLabel = (case getAttribute el ''aria-label'' of None \<Rightarrow> [] | Some a \<Rightarrow> a);
          val = (case value el of None \<Rightarrow> [] | Some v \<Rightarrow> v)
      in toLowerCase elText = toLowerCase searchText \<or>
         toLowerCase ariaLabel = toLowerCase searchText \<or>
         toLowerCase val = toLowerCase searchText)"

text \<open>The loop over the candidate elements. With no search text, \<open>searchText.toLowerCase()\<close>
  throws at the first element.\<close>

fun click_first :: "string option \<Rightarrow> element list \<Rightarrow> (js_error + click_outcome) \<times> effect list" where
  \<open>click_first searchText [] =
     (Inr \<lparr>click_success = False, found = False,
           click_error = Some (''No element found with text "'' @ shown searchText @ ''"'')\<rparr>, [])\<close>
| \<open>click_first None (el # els) = (Inl (TypeError ''Cannot read properties of undefined''), [])\<close>
| \<open>click_first (Some t) (el # els) =
     (if text_matches t el then
        (Inr \<lparr>click_success = True, found = True, click_error = None\<rparr>,
         [ScrollIntoView (node el), SetOutline (node el) ''3px solid #4CAF50'',
          Deferred 500 (SetOutline (node el) (outline el)), Deferred 300 (ClickNode (node el))])
      else click_first (Some t) els)\<close>

definition click_script :: "string option \<Rightarrow> surface \<Rightarrow> (js_error + click_outcome) \<times> effect list" where
  "click_script searchText sf = click_first searchText (querySelectorAll sf clickable_selector)"

definition executeClickByText ::
  "(string \<times> string) list \<Rightarrow> nat \<Rightarrow> surface \<Rightarrow> (js_error + ExecutionResult) \<times> effect list" where
  \<open>executeClickByText ps tabId sf =
     (let text = map_of ps ''text''
      in case executeScript sf (click_script text) of
           (Inl e, es) \<Rightarrow> (Inl e, es)
         | (Inr result, es) \<Rightarrow>
             (if (case result of None \<Rightarrow> False | Some r \<Rightarrow> found r)
              then (Inr (succeeded (''Clicked "'' @ shown text @ ''"'')), es)
              else (Inr (failed (or_default (case result of None \<Rightarrow> None | Some r \<Rightarrow> click_error r)
                                   (''Could not find element with text "'' @ shown text @ ''"''))),
                    es)))\<close>

text \<open>
  The dispatcher returns the promise of the primitive without awaiting it, so the \<open>catch\<close>
  around the \<open>switch\<close> does not see a rejection of the primitive: that rejection is the
  dispatcher's own. Nothing else in the \<open>try\<close> block can throw.
\<close>

definition executeFastPathAction ::
  "FastPathAction \<Rightarrow> (string \<times> string) list \<Rightarrow> nat \<Rightarrow> surface \<Rightarrow> (js_error + ExecutionResult) \<times> effect list" where
  "executeFastPathAction a ps tabId sf =
     (case a of
        FP_scroll \<Rightarrow> fastPath_executeScroll ps tabId sf
      | FP_goBack \<Rightarrow> executeGoBack tabId sf
      | FP_goForward \<Rightarrow> executeGoForward tabId sf
      | FP_reload \<Rightarrow> executeReload tabId sf
      | FP_navigate \<Rightarrow> fastPath_executeNavigate ps tabId sf
      | FP_clickByText \<Rightarrow> executeClickByText ps tabId sf
      | FP_other name \<Rightarrow> (Inr (failed (''Unknown fast-path action: '' @ name)), []))"

subsection \<open>The primitives of the Executor for scroll and extract\<close>

text \<open>The function injected by the Executor's \<open>executeScroll\<close>: the direction is lowered
  first, the distance is 400.\<close>

definition scroll_script :: "string \<Rightarrow> surface \<Rightarrow> (js_error + unit) \<times> effect list" where
  "scroll_script dir sf =
     (let d = toLowerCase dir in
      (Inr (),
       if d = ''down'' then [WindowScrollBy (Some 400)]
       else if d = ''up'' then [WindowScrollBy (Some (- 400))]
       else if d = ''top'' then [WindowScrollTo 0]
       else if d = ''bottom'' then [WindowScrollTo (scrollHeight sf)]
       else []))"

definition executeScroll :: "string \<Rightarrow> nat \<Rightarrow> surface \<Rightarrow> (js_error + ExecutionResult) \<times> effect list" where
  "executeScroll direction tabId sf =
     (case executeScript sf (scroll_script direction) of
        (Inl e, es) \<Rightarrow> (Inl e, es)
      | (Inr results, es) \<Rightarrow> (Inr (succeeded (''Scrolled '' @ direction)), es))"

text \<open>The function injected by \<open>executeExtract\<close>: the text of the selected element, or of the
  body, cut to 1000 characters.\<close>

definition extract_script :: "string \<Rightarrow> surface \<Rightarrow> (js_error + string option) \<times> effect list" where
  "extract_script sel sf =
     (let el = (case querySelector sf sel of None \<Rightarrow> body sf | Some e \<Rightarrow> e)
      in (Inr (map_option (\<lambda>t. slice0 t 1000) (innerText el)), []))"

definition executeExtract :: "string \<Rightarrow> nat \<Rightarrow> surface \<Rightarrow> (js_error + ExecutionResult) \<times> effect list" where
  "executeExtract selector tabId sf =
     (case executeScript sf (extract_script selector) of
        (Inl e, es) \<Rightarrow> (Inl e, es)
      | (Inr result, es) \<Rightarrow>
          (Inr (succeeded (or_default (case result of None \<Rightarrow> None | Some r \<Rightarrow> r)
                             ''No content extracted'')), es))"

subsection \<open>Example surfaces\<close>

text \<open>A page whose only clickable element is a button labelled \<open>Log in\<close>; the same page when
  the script injection yields no result; and the same page when the injection is refused.\<close>

definition login_button :: element where
  "login_button =
     \<lparr>node = 7, textContent = Some '' Log in '', attributes = [(''aria-label'', ''Log in'')],
      value = Some [], innerText = Some ''Log in'', outline = []\<rparr>"

definition example_page :: surface where
  "example_page =
     \<lparr>injection = Runs,
      querySelectorAll = (\<lambda>sel. if sel = clickable_selector then [login_button] else []),
      querySelector = (\<lambda>sel. None),
      body = \<lparr>node = 0, textContent = Some ''Welcome Log in'', attributes = [],
               value = None, innerText = Some ''Welcome Log in'', outline = []\<rparr>,
      scrollHeight = 5000,
      tabs_failure = None\<rparr>"

definition silent_page :: surface where
  "silent_page = example_page\<lparr>injection := NoResult\<rparr>"

definition restricted_page :: surface where
  "restricted_page = example_page\<lparr>injection := Rejects ''Cannot access a chrome:// URL''\<rparr>"

text \<open>The command \<open>click "Sign In"\<close>.\<close>

definition click_sign_in :: string where
  \<open>click_sign_in = ''click "Sign In"''\<close>

section \<open>Values of the runtime\<close>

text \<open>
  What \<open>JSON.parse\<close> returns and what the model stages pass on unchecked: a JavaScript value.
  Numbers are integers here.
\<close>

datatype jsval =
    JUndefined
  | JNull
  | JBool bool
  | JNum int
  | JStr string
  | JArr "jsval list"
  | JObj "(string \<times> jsval) list"

fun truthy :: "jsval \<Rightarrow> bool" where
  "truthy JUndefined = False"
| "truthy JNull = False"
| "truthy (JBool b) = b"
| "truthy (JNum n) = (n \<noteq> 0)"
| "truthy (JStr s) = (s \<noteq> [])"
| "truthy (JArr xs) = True"
| "truthy (JObj kvs) = True"

text \<open>\<open>a || b\<close>.\<close>

definition or_else :: "jsval \<Rightarrow> jsval \<Rightarrow> jsval" where
  "or_else a b = (if truthy a then a else b)"

text \<open>\<open>v.name\<close> for the property names the source reads (none of them is a property of a
  prototype): it throws on \<open>undefined\<close> and \<open>null\<close>, and is \<open>undefined\<close> where the property is
  missing.\<close>

fun get :: "jsval \<Rightarrow> string \<Rightarrow> js_error + jsval" where
  "get JUndefined name = Inl (TypeError (''Cannot read properties of undefined (reading '' @ [CHR 0x27] @ name @ [CHR 0x27] @ '')''))"
| "get JNull name = Inl (TypeError (''Cannot read properties of null (reading '' @ [CHR 0x27] @ name @ [CHR 0x27] @ '')''))"
| "get (JObj kvs) name = Inr (case map_of kvs name of None \<Rightarrow> JUndefined | Some v \<Rightarrow> v)"
| "get v name = Inr JUndefined"

text \<open>\<open>v[0]\<close>.\<close>

fun at0 :: "jsval \<Rightarrow> js_error + jsval" where
  "at0 JUndefined = Inl (TypeError (''Cannot read properties of undefined (reading '' @ [CHR 0x27] @ ''0'' @ [CHR 0x27] @ '')''))"
| "at0 JNull = Inl (TypeError (''Cannot read properties of null (reading '' @ [CHR 0x27] @ ''0'' @ [CHR 0x27] @ '')''))"
| "at0 (JArr xs) = Inr (case xs of [] \<Rightarrow> JUndefined | x # _ \<Rightarrow> x)"
| "at0 (JStr s) = Inr (case s of [] \<Rightarrow> JUndefined | c # _ \<Rightarrow> JStr [c])"
| "at0 (JObj kvs) = Inr (case map_of kvs ''0'' of None \<Rightarrow> JUndefined | Some v \<Rightarrow> v)"
| "at0 v = Inr JUndefined"

text \<open>The values a \<open>for ... of\<close> loop runs over: an array's elements or a string's characters;
  anything else is not iterable.\<close>

fun iterate :: "jsval \<Rightarrow> js_error + jsval list" where
  "iterate (JArr xs) = Inr xs"
| "iterate (JStr s) = Inr (map (\<lambda>c. JStr [c]) s)"
| "iterate v = Inl (TypeError ''parsed.actions is not iterable'')"

text \<open>Sequencing of computations that can throw.\<close>

definition and_then :: "'e + 'a \<Rightarrow> ('a \<Rightarrow> 'e + 'b) \<Rightarrow> 'e + 'b" where
  "and_then x f = (case x of Inl e \<Rightarrow> Inl e | Inr v \<Rightarrow> f v)"

text \<open>The \<open>JSON\<close> object of the runtime is a parameter of the model: \<open>parse\<close> returns a value
  or throws, \<open>stringify\<close> prints a value.\<close>

record JSON =
  parse :: "string \<Rightarrow> js_error + jsval"
  stringify :: "jsval \<Rightarrow> string"

text \<open>\<open>/\{[\s\S]*\}/\<close>: from the first opening brace to the last closing brace.\<close>

definition json_block :: regex where
  "json_block = seq [chr CHR ''{'', Star (Sym [Space, NonSpace]), chr CHR ''}'']"

text \<open>\<open>response.match(/\{[\s\S]*\}/)\<close>: it throws when the response is not a string.\<close>

fun match_json_block :: "jsval \<Rightarrow> js_error + rmatch option" where
  "match_json_block (JStr s) = Inr (exec False json_block s)"
| "match_json_block JUndefined = Inl (TypeError (''Cannot read properties of undefined (reading '' @ [CHR 0x27] @ ''match'' @ [CHR 0x27] @ '')''))"
| "match_json_block JNull = Inl (TypeError (''Cannot read properties of null (reading '' @ [CHR 0x27] @ ''match'' @ [CHR 0x27] @ '')''))"
| "match_json_block v = Inl (TypeError ''response.match is not a function'')"

text \<open>A natural number in decimal.\<close>

fun show_nat :: "nat \<Rightarrow> string" where
  "show_nat n =
     (if n < 10 then [''0123456789'' ! n]
      else show_nat (n div 10) @ [''0123456789'' ! (n mod 10)])"

declare show_nat.simps [simp del]

definition show_int :: "int \<Rightarrow> string" where
  "show_int i = (if i < 0 then CHR ''-'' # show_nat (nat (- i)) else show_nat (nat i))"

section \<open>Model Gateway: the AI client\<close>

text \<open>
  The remote provider is a parameter: it answers a request with a response or fails (the
  \<open>fetch\<close> rejects). The temperature is in tenths. \<open>response_json\<close> is what \<open>response.json()\<close>
  resolves with, or the error it rejects with.
\<close>

record model_request =
  endpoint :: string
  api_key :: string
  req_model :: string
  max_tokens :: nat
  temperature_tenths :: nat
  system_text :: string
  user_text :: string

record http_response =
  ok :: bool
  status :: nat
  response_text :: string
  response_json :: "js_error + jsval"

type_synonym remote = "model_request \<Rightarrow> js_error + http_response"

definition claude_text :: "jsval \<Rightarrow> js_error + jsval" where
  "claude_text data =
     and_then (get data ''content'') (\<lambda>content.
       if \<not> truthy content then Inl (Error ''Invalid response from Claude API'')
       else and_then (at0 content) (\<lambda>first.
         if \<not> truthy first then Inl (Error ''Invalid response from Claude API'')
         else and_then (get first ''text'') (\<lambda>t.
           if \<not> truthy t then Inl (Error ''Invalid response from Claude API'')
           else Inr t)))"

definition callClaude ::
  "remote \<Rightarrow> string \<Rightarrow> string \<Rightarrow> string \<Rightarrow> string \<Rightarrow> nat \<Rightarrow> nat \<Rightarrow> (js_error + jsval) \<times> effect list" where
  "callClaude remote key mdl systemPrompt userMessage maxTokens temperature =
     (let url = ''https://api.anthropic.com/v1/messages'';
          sent = [ModelRequest url mdl systemPrompt userMessage]
      in case remote \<lparr>endpoint = url, api_key = key, req_model = mdl, max_tokens = maxTokens,
                      temperature_tenths = temperature, system_text = systemPrompt,
                      user_text = userMessage\<rparr> of
           Inl e \<Rightarrow> (Inl e, sent)
         | Inr response \<Rightarrow>
             if \<not> ok response then
               (Inl (Error (''Claude API error: '' @ show_nat (status response) @ '' - '' @
                            response_text response)), sent)
             else (and_then (response_json response) claude_text, sent))"

definition openai_text :: "jsval \<Rightarrow> js_error + jsval" where
  "openai_text data =
     and_then (get data ''choices'') (\<lambda>choices.
       if \<not> truthy choices then Inl (Error ''Invalid response from OpenAI API'')
       else and_then (at0 choices) (\<lambda>first.
         if \<not> truthy first then Inl (Error ''Invalid response from OpenAI API'')
         else and_then (get first ''message'') (\<lambda>msg.
           if \<not> truthy msg then Inl (Error ''Invalid response from OpenAI API'')
           else get msg ''content'')))"

definition callOpenAI ::
  "remote \<Rightarrow> string \<Rightarrow> string \<Rightarrow> string \<Rightarrow> string \<Rightarrow> nat \<Rightarrow> nat \<Rightarrow> (js_error + jsval) \<times> effect list" where
  "callOpenAI remote key mdl systemPrompt userMessage maxTokens temperature =
     (let url = ''https://api.openai.com/v1/chat/completions'';
          sent = [ModelRequest url mdl systemPrompt userMessage]
      in case remote \<lparr>endpoint = url, api_key = key, req_model = mdl, max_tokens = maxTokens,
                      temperature_tenths = temperature, system_text = systemPrompt,
                      user_text = userMessage\<rparr> of
           Inl e \<Rightarrow> (Inl e, sent)
         | Inr response \<Rightarrow>
             if \<not> ok response then
               (Inl (Error (''OpenAI API error: '' @ show_nat (status response) @ '' - '' @
                            response_text response)), sent)
             else (and_then (response_json response) openai_text, sent))"

record AICallOptions =
  provider :: string
  apiKey :: string
  model :: string
  systemPrompt :: string
  userMessage :: string
  maxTokens :: "nat option"
  temperature :: "nat option"

text \<open>
  The module of the AI client also holds the exported rate limiter. \<open>callAI\<close> takes the
  module's limiter and returns it with its result; its body never refers to the limiter,
  so the limiter comes back as it was. The defaults are 1000 tokens and a temperature of
  0.7.
\<close>

definition callAI ::
  "remote \<Rightarrow> AICallOptions \<Rightarrow> RateLimiter \<Rightarrow> ((js_error + jsval) \<times> effect list) \<times> RateLimiter" where
  "callAI remote options limiter =
     (let tokens = (case maxTokens options of None \<Rightarrow> 1000 | Some n \<Rightarrow> n);
          temp = (case temperature options of None \<Rightarrow> 7 | Some t \<Rightarrow> t)
      in (if apiKey options = [] then (Inl (Error ''API key is required''), [])
          else if provider options = ''claude'' then
            callClaude remote (apiKey options) (model options) (systemPrompt options)
              (userMessage options) tokens temp
          else if provider options = ''openai'' then
            callOpenAI remote (apiKey options) (model options) (systemPrompt options)
              (userMessage options) tokens temp
          else (Inl (Error (''Unknown AI provider: '' @ provider options)), []),
          limiter))"

section \<open>Settings, page snapshot and conversation\<close>

record ExtensionSettings =
  provider :: string
  apiKey :: string
  intentModel :: string
  codeGenModel :: string
  maxRetries :: nat
  confirmDestructive :: bool
  audioFeedback :: bool
  theme :: string

definition DEFAULT_SETTINGS :: ExtensionSettings where
  "DEFAULT_SETTINGS =
     \<lparr>provider = ''claude'', apiKey = [], intentModel = ''claude-3-5-haiku-20241022'',
      codeGenModel = ''claude-sonnet-4-20250514'', maxRetries = 3, confirmDestructive = True,
      audioFeedback = False, theme = ''system''\<rparr>"

text \<open>The snapshot types \<open>SimplifiedElement\<close> and \<open>SimplifiedDOM\<close>. An optional attribute is
  \<open>None\<close> when it is absent. The fields \<open>id\<close>, \<open>type\<close>, \<open>name\<close>, \<open>value\<close>, \<open>text\<close>, \<open>x\<close> and \<open>y\<close> carry
  a suffix or a prefix here.\<close>

record element_attributes =
  id_attr :: "string option"
  className :: "string option"
  href :: "string option"
  type_attr :: "string option"
  placeholder :: "string option"
  ariaLabel :: "string option"
  name_attr :: "string option"
  value_attr :: "string option"

record bounding_box =
  box_x :: int
  box_y :: int
  box_width :: int
  box_height :: int

record SimplifiedElement =
  element_id :: string
  tagName :: string
  role :: "string option"
  element_text :: string
  element_attrs :: element_attributes
  isInteractive :: bool
  isVisible :: bool
  boundingBox :: bounding_box

record SimplifiedDOM =
  url :: string
  title :: string
  timestamp :: int
  elements :: "SimplifiedElement list"
  pageText :: string

text \<open>Of a \<open>ChatMessage\<close>, the fields the Action Generator reads.\<close>

record ChatMessage =
  chat_role :: string
  content :: string

text \<open>An attribute that is present and not empty, printed as \<open>label="value"\<close>.\<close>

definition attr_entry :: "string \<Rightarrow> string option \<Rightarrow> string list" where
  \<open>attr_entry label v =
     (case v of
        None \<Rightarrow> []
      | Some s \<Rightarrow> if s = [] then [] else [label @ ''="'' @ s @ ''"''])\<close>

section \<open>Intent Resolver\<close>

text \<open>The system prompts are constants handed to the provider unchanged; only their opening
  sentence is written out here.\<close>

definition INTENT_SYSTEM_PROMPT :: string where
  "INTENT_SYSTEM_PROMPT = ''You are an intent analyzer for a browser automation assistant.''"

record IntentAnalysis =
  clear :: jsval
  clarificationQuestion :: jsval
  clarificationOptions :: jsval
  parsedIntent :: jsval

text \<open>The decision both fallback branches return: clear, a click on the command text.\<close>

definition fallback_intent :: "string \<Rightarrow> IntentAnalysis" where
  "fallback_intent command =
     \<lparr>clear = JBool True, clarificationQuestion = JUndefined, clarificationOptions = JUndefined,
      parsedIntent = JObj [(''action'', JStr ''click''), (''target'', JStr command)]\<rparr>"

definition intent_element_line :: "SimplifiedElement \<Rightarrow> string" where
  \<open>intent_element_line el =
     (let a = element_attrs el;
          attrs = attr_entry ''aria-label'' (ariaLabel a) @ attr_entry ''placeholder'' (placeholder a) @
                  attr_entry ''type'' (type_attr a) @
                  (case href a of
                     None \<Rightarrow> []
                   | Some h \<Rightarrow> if h = [] then [] else [''href="'' @ slice0 h 50 @ ''..."''])
      in ''['' @ element_id el @ ''] <'' @ tagName el @
         (if attrs = [] then [] else '' '' @ join '' '' attrs) @
         ''> "'' @ slice0 (element_text el) 50 @ ''"'')\<close>

definition intent_user_message :: "string \<Rightarrow> SimplifiedDOM \<Rightarrow> string" where
  \<open>intent_user_message command domContext =
     (let interactiveElements =
            join [newline] (map intent_element_line (filter isInteractive (elements domContext)))
      in ''Page: '' @ title domContext @ [newline] @
         ''URL: '' @ url domContext @ [newline, newline] @
         ''Interactive elements on page:'' @ [newline] @
         (if interactiveElements = [] then ''No interactive elements found''
          else interactiveElements) @ [newline, newline] @
         ''User command: "'' @ command @ ''"'' @ [newline, newline] @
         ''Analyze if this command is clear and unambiguous. If there are multiple possible targets, ask for clarification.'')\<close>

text \<open>The body of the \<open>try\<close> block after the model call: what it returns, or the error it
  throws.\<close>

definition intent_from_response :: "JSON \<Rightarrow> string \<Rightarrow> jsval \<Rightarrow> js_error + IntentAnalysis" where
  "intent_from_response J command response =
     and_then (match_json_block response) (\<lambda>jsonMatch.
       case jsonMatch of
         None \<Rightarrow> Inr (fallback_intent command)
       | Some m \<Rightarrow>
           and_then (parse J (match0 m)) (\<lambda>parsed.
           and_then (get parsed ''clear'') (\<lambda>c.
           and_then (get parsed ''clarificationQuestion'') (\<lambda>q.
           and_then (get parsed ''clarificationOptions'') (\<lambda>opts.
           and_then (get parsed ''parsedIntent'') (\<lambda>intent.
             Inr \<lparr>clear = c, clarificationQuestion = q, clarificationOptions = opts,
                  parsedIntent = intent\<rparr>))))))"

text \<open>
  \<open>analyzeIntent\<close>: the prompt is built, the model is called once, and whatever the \<open>try\<close>
  block throws is caught and answered with the fallback decision. The result is the
  value the promise resolves with (\<open>Inr\<close>) or the error it rejects with (\<open>Inl\<close>), the
  effects, and the limiter of the AI client.
\<close>

definition intent_options :: "string \<Rightarrow> SimplifiedDOM \<Rightarrow> ExtensionSettings \<Rightarrow> AICallOptions" where
  "intent_options command domContext settings =
     \<lparr>AICallOptions.provider = provider settings, AICallOptions.apiKey = apiKey settings,
      model = intentModel settings, systemPrompt = INTENT_SYSTEM_PROMPT,
      userMessage = intent_user_message command domContext,
      maxTokens = Some 500, temperature = None\<rparr>"

definition analyzeIntent ::
  "JSON \<Rightarrow> remote \<Rightarrow> string \<Rightarrow> SimplifiedDOM \<Rightarrow> ExtensionSettings \<Rightarrow> RateLimiter \<Rightarrow>
   ((js_error + IntentAnalysis) \<times> effect list) \<times> RateLimiter" where
  "analyzeIntent J remote command domContext settings limiter =
     (case callAI remote (intent_options command domContext settings) limiter of
        ((response, effects), limiter') \<Rightarrow>
          ((Inr (case and_then response (intent_from_response J command) of
                   Inl e \<Rightarrow> fallback_intent command
                 | Inr analysis \<Rightarrow> analysis),
            effects), limiter'))"

section \<open>Action Generator\<close>

definition CODEGEN_SYSTEM_PROMPT :: string where
  "CODEGEN_SYSTEM_PROMPT =
     ''You are a browser automation assistant. Generate structured actions to accomplish user tasks on web pages.''"

record GeneratedAction =
  code :: jsval
  selector :: jsval
  actionType :: jsval
  description :: jsval
  verification :: jsval

record CodeGenResult =
  success :: bool
  actions :: "GeneratedAction list"
  explanation :: jsval
  error :: "jsval option"

definition codegen_element_line :: "SimplifiedElement \<Rightarrow> string" where
  \<open>codegen_element_line el =
     (let a = element_attrs el;
          attrs = attr_entry ''id'' (id_attr a) @
                  attr_entry ''class'' (map_option (\<lambda>c. slice0 c 50) (className a)) @
                  attr_entry ''aria-label'' (ariaLabel a) @
                  attr_entry ''placeholder'' (placeholder a) @
                  attr_entry ''type'' (type_attr a) @
                  attr_entry ''name'' (name_attr a) @
                  attr_entry ''href'' (map_option (\<lambda>h. slice0 h 80) (href a));
          b = boundingBox el;
          box = ''('' @ show_int (box_x b) @ '','' @ show_int (box_y b) @ '' '' @
                show_int (box_width b) @ ''x'' @ show_int (box_height b) @ '')''
      in ''['' @ element_id el @ ''] <'' @ tagName el @ '' '' @ join '' '' attrs @ ''> "'' @
         slice0 (element_text el) 80 @ ''" '' @
         (if isInteractive el then ''(interactive)'' else []) @ '' '' @ box)\<close>

text \<open>\<open>xs.slice(-5)\<close>: the last five.\<close>

definition last5 :: "'a list \<Rightarrow> 'a list" where
  "last5 xs = drop (length xs - 5) xs"

definition codegen_user_message ::
  "JSON \<Rightarrow> string \<Rightarrow> jsval \<Rightarrow> SimplifiedDOM \<Rightarrow> ChatMessage list \<Rightarrow> string" where
  \<open>codegen_user_message J command intent domContext conversationHistory =
     (let elementsContext = join [newline] (map codegen_element_line (elements domContext));
          recentMessages =
            join [newline] (map (\<lambda>msg. chat_role msg @ '': '' @ content msg)
                              (last5 conversationHistory))
      in ''Page: '' @ title domContext @ [newline] @
         ''URL: '' @ url domContext @ [newline, newline] @
         ''Page text summary:'' @ [newline] @
         slice0 (pageText domContext) 500 @ ''...'' @ [newline, newline] @
         ''DOM Elements:'' @ [newline] @ elementsContext @ [newline, newline] @
         ''Recent conversation:'' @ [newline] @
         (if recentMessages = [] then ''None'' else recentMessages) @ [newline, newline] @
         ''User command: "'' @ command @ ''"'' @ [newline] @
         ''Parsed intent: '' @ stringify J intent @ [newline, newline] @
         ''Generate the JavaScript code to accomplish this task. Use the element IDs (like "el-5") to reference elements when possible.'')\<close>

text \<open>The action pushed for an entry that has its kind.\<close>

definition make_action :: "jsval \<Rightarrow> js_error + GeneratedAction" where
  "make_action entry =
     and_then (get entry ''code'') (\<lambda>c.
     and_then (get entry ''selector'') (\<lambda>s.
     and_then (get entry ''actionType'') (\<lambda>k.
     and_then (get entry ''description'') (\<lambda>d.
     and_then (get entry ''verification'') (\<lambda>v.
       Inr \<lparr>code = c, selector = or_else s JNull, actionType = k,
            description = or_else d (JStr ''Action''),
            verification = or_else v (JObj [(''type'', JStr ''none''),
                                            (''expectedResult'', JStr [])])\<rparr>)))))"

text \<open>The validation loop: an entry whose \<open>actionType\<close> is missing (or falsy) is skipped;
  reading it off \<open>null\<close> throws and ends the loop.\<close>

fun valid_actions :: "jsval list \<Rightarrow> js_error + GeneratedAction list" where
  "valid_actions [] = Inr []"
| "valid_actions (entry # entries) =
     (case get entry ''actionType'' of
        Inl e \<Rightarrow> Inl e
      | Inr k \<Rightarrow>
          if \<not> truthy k then valid_actions entries
          else (case make_action entry of
                  Inl e \<Rightarrow> Inl e
                | Inr act \<Rightarrow>
                    (case valid_actions entries of
                       Inl e \<Rightarrow> Inl e
                     | Inr acts \<Rightarrow> Inr (act # acts))))"

text \<open>The body of the \<open>try\<close> block after the model call.\<close>

definition codegen_from_response :: "JSON \<Rightarrow> jsval \<Rightarrow> js_error + CodeGenResult" where
  "codegen_from_response J response =
     and_then (match_json_block response) (\<lambda>jsonMatch.
       case jsonMatch of
         None \<Rightarrow>
           Inr \<lparr>success = False, actions = [],
                explanation = JStr ''Failed to parse code generation response'',
                error = Some (JStr ''Invalid response format'')\<rparr>
       | Some m \<Rightarrow>
           and_then (parse J (match0 m)) (\<lambda>parsed.
           and_then (get parsed ''success'') (\<lambda>ok_flag.
           and_then (get parsed ''explanation'') (\<lambda>expl.
             if \<not> truthy ok_flag then
               and_then (get parsed ''error'') (\<lambda>err.
                 Inr \<lparr>success = False, actions = [],
                      explanation = or_else expl (JStr ''Code generation failed''),
                      error = Some (or_else err (JStr ''Unknown error''))\<rparr>)
             else
               and_then (get parsed ''actions'') (\<lambda>listed.
               and_then (iterate (or_else listed (JArr []))) (\<lambda>entries.
               and_then (valid_actions entries) (\<lambda>validActions.
                 Inr \<lparr>success = (0 < length validActions), actions = validActions,
                      explanation = or_else expl (JStr ''Generated actions''),
                      error = None\<rparr>)))))))"

text \<open>
  \<open>generateCode\<close>: the prompt is built, the model is called once, and whatever the \<open>try\<close>
  block throws is caught and answered with a failed result that carries the message of
  the error.
\<close>

definition codegen_options ::
  "JSON \<Rightarrow> string \<Rightarrow> jsval \<Rightarrow> SimplifiedDOM \<Rightarrow> ExtensionSettings \<Rightarrow> ChatMessage list \<Rightarrow> AICallOptions" where
  "codegen_options J command intent domContext settings conversationHistory =
     \<lparr>AICallOptions.provider = provider settings, AICallOptions.apiKey = apiKey settings,
      model = codeGenModel settings, systemPrompt = CODEGEN_SYSTEM_PROMPT,
      userMessage = codegen_user_message J command intent domContext conversationHistory,
      maxTokens = Some 2000, temperature = None\<rparr>"

definition generateCode ::
  "JSON \<Rightarrow> remote \<Rightarrow> string \<Rightarrow> jsval \<Rightarrow> SimplifiedDOM \<Rightarrow> ExtensionSettings \<Rightarrow> ChatMessage list \<Rightarrow>
   RateLimiter \<Rightarrow> ((js_error + CodeGenResult) \<times> effect list) \<times> RateLimiter" where
  "generateCode J remote command intent domContext settings conversationHistory limiter =
     (case callAI remote
             (codegen_options J command intent domContext settings conversationHistory)
             limiter of
        ((response, effects), limiter') \<Rightarrow>
          ((Inr (case and_then response (codegen_from_response J) of
                   Inl e \<Rightarrow>
                     \<lparr>success = False, actions = [], explanation = JStr ''Code generation failed'',
                      error = Some (JStr (error_message e))\<rparr>
                 | Inr result \<Rightarrow> result),
            effects), limiter'))"

text \<open>An entry of the \<open>actions\<close> array has its kind when its \<open>actionType\<close> is there and truthy;
  \<open>action_of\<close> is the action kept for such an entry.\<close>

definition member :: "jsval \<Rightarrow> string \<Rightarrow> jsval" where
  "member v name = (case get v name of Inl e \<Rightarrow> JUndefined | Inr x \<Rightarrow> x)"

definition has_kind :: "jsval \<Rightarrow> bool" where
  "has_kind entry = truthy (member entry ''actionType'')"

definition action_of :: "jsval \<Rightarrow> GeneratedAction" where
  "action_of entry =
     \<lparr>code = member entry ''code'', selector = or_else (member entry ''selector'') JNull,
      actionType = member entry ''actionType'',
      description = or_else (member entry ''description'') (JStr ''Action''),
      verification = or_else (member entry ''verification'')
                       (JObj [(''type'', JStr ''none''), (''expectedResult'', JStr [])])\<rparr>"

subsection \<open>Example collaborators\<close>

text \<open>A response text with a JSON block, the value it parses to, and a \<open>JSON\<close> object that
  parses this text and the empty object only.\<close>

definition batch_text :: string where
  \<open>batch_text = ''{"success":true,"actions":[{"actionType":"click","selector":"el-5"},{"description":"no kind"}]}''\<close>

definition batch_value :: jsval where
  "batch_value =
     JObj [(''success'', JBool True),
           (''actions'', JArr [JObj [(''actionType'', JStr ''click''), (''selector'', JStr ''el-5'')],
                              JObj [(''description'', JStr ''no kind'')]])]"

definition example_JSON :: JSON where
  "example_JSON =
     \<lparr>parse = (\<lambda>s. if s = batch_text then Inr batch_value
                     else if s = ''{}'' then Inr (JObj [])
                     else Inl (SyntaxError ''Unexpected token'')),
      stringify = (\<lambda>v. ''null'')\<rparr>"

text \<open>The same batch with \<open>null\<close> for its second entry, and a \<open>JSON\<close> object that parses this
  text only.\<close>

definition null_batch_text :: string where
  \<open>null_batch_text = ''{"success":true,"actions":[{"actionType":"click","selector":"el-5"},null]}''\<close>

definition null_batch_value :: jsval where
  "null_batch_value =
     JObj [(''success'', JBool True),
           (''actions'', JArr [JObj [(''actionType'', JStr ''click''), (''selector'', JStr ''el-5'')],
                              JNull])]"

definition null_batch_JSON :: JSON where
  "null_batch_JSON =
     \<lparr>parse = (\<lambda>s. if s = null_batch_text then Inr null_batch_value
                     else Inl (SyntaxError ''Unexpected token'')),
      stringify = (\<lambda>v. ''null'')\<rparr>"

text \<open>A provider that answers every request with the given text, in the format of the
  Claude API.\<close>

definition answering :: "string \<Rightarrow> remote" where
  "answering reply =
     (\<lambda>request. Inr \<lparr>ok = True, status = 200, response_text = [],
                     response_json = Inr (JObj [(''content'', JArr [JObj [(''text'', JStr reply)]])])\<rparr>)"

definition example_dom :: SimplifiedDOM where
  "example_dom = \<lparr>url = ''https://example.org/'', title = ''Example'', timestamp = 0,
                  elements = [], pageText = ''Welcome''\<rparr>"

definition example_settings :: ExtensionSettings where
  "example_settings = DEFAULT_SETTINGS\<lparr>apiKey := ''sk-test''\<rparr>"

text \<open>The exported limiter after ten admitted calls at time 1000: until time 61000 it
  admits no further call.\<close>

definition exhausted_limiter :: RateLimiter where
  "exhausted_limiter =
     rateLimiter\<lparr>requests := [1000, 1000, 1000, 1000, 1000, 1000, 1000, 1000, 1000, 1000]\<rparr>"

section \<open>Pipeline Orchestrator\<close>



text \<open>
  Modelled from the spec: the orchestrator \<open>processPipeline\<close> (the module \<open>pipeline\<close>, which
  the service worker imports) is not among the sources. The definitions of this section
  follow the state machine of the specification, section 4.8, with the collaborators as
  parameters: the pattern matcher and its execution, the intent resolver, the action
  generator, the safety gate with the external confirmation, the executor and the
  verifier.
\<close>


text \<open>Modelled from the spec: the verdict of the safety gate on one action.\<close>

datatype verdict = Unsafe | Flagged | Safe












section \<open>The rate limiter admits at most the maximum per window\<close>

lemma canProceed_fields:
  "maxRequests (snd (canProceed now rl)) = maxRequests rl"
  "windowMs (snd (canProceed now rl)) = windowMs rl"
  by (simp_all add: canProceed_def Let_def)

lemma admitted_Nil: "admitted [] rl = []"
  by (simp add: admitted_def)

lemma admitted_Cons:
  "admitted (t # ts) rl =
     (if fst (canProceed t rl) then [t] else []) @ admitted ts (snd (canProceed t rl))"
  by (simp add: admitted_def split: prod.splits)

lemma filter_window_le:
  assumes "\<And>x. x \<in> set h \<Longrightarrow> P x \<Longrightarrow> Q x"
  shows "length (filter P h) \<le> length (filter Q h)"
proof -
  have "filter P h = filter P (filter Q h)"
    using assms by (induction h) auto
  then show ?thesis
    by (metis length_filter_le)
qed

lemma admitted_window_gen:
  assumes "sorted ts" and "\<forall>t\<in>set ts. now0 \<le> t" and "\<forall>x\<in>set h. x \<le> now0"
    and "\<forall>t'\<ge>now0. filter (\<lambda>x. t' - x < windowMs rl) (requests rl)
                    = filter (\<lambda>x. t' - x < windowMs rl) h"
    and "length (requests rl) \<le> maxRequests rl"
    and "\<forall>s. in_window s (windowMs rl) h \<le> maxRequests rl"
  shows "in_window s (windowMs rl) (h @ admitted ts rl) \<le> maxRequests rl"
  using assms
proof (induction ts arbitrary: rl h now0)
  case Nil
  then show ?case by (simp add: admitted_Nil)
next
  case (Cons t ts)
  let ?w = "windowMs rl" and ?m = "maxRequests rl"
  let ?rs = "filter (\<lambda>x. t - x < ?w) (requests rl)"
  have t_ge: "now0 \<le> t" using Cons.prems(2) by simp
  have rs_h: "?rs = filter (\<lambda>x. t - x < ?w) h"
    using Cons.prems(4) t_ge by blast
  have later: "filter (\<lambda>x. t' - x < ?w) ?rs = filter (\<lambda>x. t' - x < ?w) h" if "t \<le> t'" for t'
  proof -
    have "filter (\<lambda>x. t' - x < ?w) ?rs = filter (\<lambda>x. t' - x < ?w) (filter (\<lambda>x. t - x < ?w) h)"
      using rs_h by simp
    also have "\<dots> = filter (\<lambda>x. t' - x < ?w) h"
      using that by (auto simp: filter_filter intro!: filter_cong)
    finally show ?thesis .
  qed
  have sorted_ts: "sorted ts" and ts_ge: "\<forall>u\<in>set ts. t \<le> u"
    using Cons.prems(1) by auto
  have h_le: "\<forall>x\<in>set h. x \<le> t" using Cons.prems(3) t_ge by fastforce
  show ?case
  proof (cases "?m \<le> length ?rs")
    case True
    let ?rl' = "rl\<lparr>requests := ?rs\<rparr>"
    have cp: "canProceed t rl = (False, ?rl')"
      using True by (simp add: canProceed_def Let_def)
    have "in_window s (windowMs ?rl') (h @ admitted ts ?rl') \<le> maxRequests ?rl'"
    proof (rule Cons.IH[of t h ?rl'])
      show "length (requests ?rl') \<le> maxRequests ?rl'"
        using Cons.prems(5) by (simp add: le_trans[OF length_filter_le])
    qed (use sorted_ts ts_ge h_le later Cons.prems(6) in simp_all)
    then show ?thesis by (simp add: admitted_Cons cp)
  next
    case False
    let ?rl' = "rl\<lparr>requests := ?rs @ [t]\<rparr>"
    have cp: "canProceed t rl = (True, ?rl')"
      using False by (simp add: canProceed_def Let_def)
    have win: "in_window s' ?w (h @ [t]) \<le> ?m" for s'
    proof (cases "s' \<le> t \<and> t < s' + ?w")
      case True
      have "in_window s' ?w h \<le> length (filter (\<lambda>x. t - x < ?w) h)"
        unfolding in_window_def using True by (intro filter_window_le) auto
      then have "in_window s' ?w h < ?m" using False rs_h by simp
      then show ?thesis using True by (simp add: in_window_def)
    next
      case False
      then show ?thesis using Cons.prems(6) by (auto simp add: in_window_def)
    qed
    have "in_window s (windowMs ?rl') ((h @ [t]) @ admitted ts ?rl') \<le> maxRequests ?rl'"
    proof (rule Cons.IH[of t "h @ [t]" ?rl'])
      show "length (requests ?rl') \<le> maxRequests ?rl'"
        using False by simp
      show "\<forall>t'\<ge>t. filter (\<lambda>x. t' - x < windowMs ?rl') (requests ?rl')
                    = filter (\<lambda>x. t' - x < windowMs ?rl') (h @ [t])"
        using later by simp
      show "\<forall>s. in_window s (windowMs ?rl') (h @ [t]) \<le> maxRequests ?rl'"
        using win by simp
    qed (use sorted_ts ts_ge h_le in simp_all)
    then show ?thesis by (simp add: admitted_Cons cp)
  qed
qed

lemma admitted_window:
  assumes "sorted ts" and "requests rl = []"
  shows "in_window s (windowMs rl) (admitted ts rl) \<le> maxRequests rl"
proof (cases ts)
  case Nil
  then show ?thesis by (simp add: admitted_Nil in_window_def)
next
  case (Cons t ts')
  have "in_window s (windowMs rl) ([] @ admitted ts rl) \<le> maxRequests rl"
    by (rule admitted_window_gen[of ts t "[]" rl])
       (use assms Cons in \<open>auto simp: in_window_def\<close>)
  then show ?thesis by simp
qed


lemma canProceed_seq_fst_Cons:
  "fst (canProceed_seq (t # ts) rl) =
     fst (canProceed t rl) # fst (canProceed_seq ts (snd (canProceed t rl)))"
  by (simp split: prod.splits)

lemma canProceed_seq_burst:
  assumes "\<forall>x\<in>set (requests rl) \<union> set ts. lo \<le> x \<and> x \<le> hi" and "hi - lo < windowMs rl"
  shows "fst (canProceed_seq ts rl) =
           replicate (min (maxRequests rl - length (requests rl)) (length ts)) True @
           replicate (length ts - (maxRequests rl - length (requests rl))) False"
  using assms
proof (induction ts arbitrary: rl)
  case Nil
  then show ?case by simp
next
  case (Cons t ts)
  have keep: "filter (\<lambda>x. t - x < windowMs rl) (requests rl) = requests rl"
  proof (rule filter_True, rule ballI)
    fix x assume "x \<in> set (requests rl)"
    then have "lo \<le> x" and "t \<le> hi" using Cons.prems(1) by auto
    then show "t - x < windowMs rl" using Cons.prems(2) by linarith
  qed
  show ?case
  proof (cases "maxRequests rl \<le> length (requests rl)")
    case True
    then have cp: "canProceed t rl = (False, rl)"
      by (simp add: canProceed_def keep)
    have "fst (canProceed_seq ts rl) = replicate (length ts) False"
      using Cons.IH[of rl] Cons.prems True by simp
    then show ?thesis using True by (simp only: canProceed_seq_fst_Cons cp) simp
  next
    case False
    let ?rl' = "rl\<lparr>requests := requests rl @ [t]\<rparr>"
    have cp: "canProceed t rl = (True, ?rl')"
      using False by (simp add: canProceed_def keep)
    have ih: "fst (canProceed_seq ts ?rl') =
           replicate (min (maxRequests rl - Suc (length (requests rl))) (length ts)) True @
           replicate (length ts - (maxRequests rl - Suc (length (requests rl)))) False"
      using Cons.IH[of ?rl'] Cons.prems by simp
    obtain k where k: "maxRequests rl - length (requests rl) = Suc k"
      using False by (metis Suc_diff_Suc not_le)
    then have k': "maxRequests rl - Suc (length (requests rl)) = k" by simp
    show ?thesis using ih by (simp only: canProceed_seq_fst_Cons cp) (simp add: k k')
  qed
qed

lemma canProceed_reset:
  assumes "\<forall>x\<in>set (requests rl). windowMs rl \<le> now - x" and "0 < maxRequests rl"
  shows "canProceed now rl = (True, rl\<lparr>requests := [now]\<rparr>)"
proof -
  have "filter (\<lambda>t. now - t < windowMs rl) (requests rl) = []"
    using assms(1) by (auto simp: filter_empty_conv)
  then show ?thesis using assms(2) by (simp add: canProceed_def)
qed

lemma math_min_Min: "xs \<noteq> [] \<Longrightarrow> math_min xs = Finite (Min (set xs))"
proof (cases xs)
  case (Cons a list)
  then show ?thesis using Min.set_eq_fold[of a list] by simp
qed simp

lemma getWaitTime_under: "length (requests rl) < maxRequests rl \<Longrightarrow> getWaitTime now rl = Finite 0"
  by (simp add: getWaitTime_def)

lemma getWaitTime_full:
  "maxRequests rl \<le> length (requests rl) \<Longrightarrow> requests rl \<noteq> [] \<Longrightarrow>
   getWaitTime now rl = Finite (Min (set (requests rl)) + windowMs rl - now)"
  by (simp add: getWaitTime_def math_min_Min)

text \<open>
  Claim C4. For every sequence of \<open>canProceed()\<close> calls on a limiter with maximum
  \<open>maxRequests\<close> and window \<open>windowMs\<close>: (1) with a clock that does not run backwards and a
  fresh limiter, no window \<open>[s, s + windowMs)\<close> ever contains more than \<open>maxRequests\<close>
  admitted timestamps; (2) when the recorded timestamps and all calls lie within one span
  shorter than the window, exactly the remaining capacity is admitted and every further call
  is rejected; (3) once every recorded timestamp is at least \<open>windowMs\<close> old, the next call is
  admitted and the record holds that call only; (4) \<open>getWaitTime()\<close> is 0 under capacity and
  otherwise the oldest recorded timestamp plus the window minus the clock reading.
\<close>

theorem rate_limiter_sliding_window:
  "(sorted ts \<and> requests rl = [] \<longrightarrow>
      in_window s (windowMs rl) (admitted ts rl) \<le> maxRequests rl)
   \<and> ((\<forall>x\<in>set (requests rl) \<union> set ts. lo \<le> x \<and> x \<le> hi) \<and> hi - lo < windowMs rl \<longrightarrow>
      fst (canProceed_seq ts rl) =
        replicate (min (maxRequests rl - length (requests rl)) (length ts)) True @
        replicate (length ts - (maxRequests rl - length (requests rl))) False)
   \<and> ((\<forall>x\<in>set (requests rl). windowMs rl \<le> now - x) \<and> 0 < maxRequests rl \<longrightarrow>
      canProceed now rl = (True, rl\<lparr>requests := [now]\<rparr>))
   \<and> (length (requests rl) < maxRequests rl \<longrightarrow> getWaitTime now rl = Finite 0)
   \<and> (maxRequests rl \<le> length (requests rl) \<and> requests rl \<noteq> [] \<longrightarrow>
      getWaitTime now rl = Finite (Min (set (requests rl)) + windowMs rl - now))"
  using admitted_window[of ts rl s] canProceed_seq_burst[of rl ts lo hi]
    canProceed_reset[of rl now] getWaitTime_under[of rl now] getWaitTime_full[of rl now]
  by blast

theorem rate_limiter_sliding_window_witness:
  "sorted [0, 10, 20, 1500 :: int] \<and> requests (newRateLimiter (Some 2) (Some 1000)) = []
   \<and> in_window 5 1000 (admitted [0, 10, 20, 1500] (newRateLimiter (Some 2) (Some 1000))) \<le> 2
   \<and> fst (canProceed_seq [0, 10, 20, 1500] (newRateLimiter (Some 2) (Some 1000))) = [True, True, False, True]
   \<and> fst (canProceed_seq [0, 10, 20] (newRateLimiter (Some 2) (Some 1000))) = [True, True, False]
   \<and> getWaitTime 30 (newRateLimiter (Some 2) (Some 1000)) = Finite 0
   \<and> canProceed 1010 \<lparr>requests = [0, 10], maxRequests = 2, windowMs = 1000\<rparr>
       = (True, \<lparr>requests = [1010], maxRequests = 2, windowMs = 1000\<rparr>)
   \<and> getWaitTime 30 \<lparr>requests = [0, 10], maxRequests = 2, windowMs = 1000\<rparr> = Finite 970"
  using rate_limiter_sliding_window[of "[0, 10, 20]" "newRateLimiter (Some 2) (Some 1000)" 5 0 20 30]
    rate_limiter_sliding_window[of "[]" "\<lparr>requests = [0, 10], maxRequests = 2, windowMs = 1000\<rparr>" 0 0 10 1010]
    rate_limiter_sliding_window[of "[]" "\<lparr>requests = [0, 10], maxRequests = 2, windowMs = 1000\<rparr>" 0 0 10 30]
  by (simp add: newRateLimiter_def canProceed_def admitted_def in_window_def)

section \<open>Properties of the matcher\<close>

lemmas rx_defs = seq_def lit_def chr_def ws_def Plus_def Opt_def alts_def quote_chars_def

lemmas ch_defs = cmatch_def advance_def ascii_lower_def ascii_upper_def is_upper_def
  is_lower_def is_digit_def is_word_def is_space_def in_range_def is_line_terminator_def
  at_word_boundary_def

text \<open>The matcher only moves forward, and an expression that begins with a character class
  consumes at least one character.\<close>

lemma run_rest_le: "run ci k st = Some st' \<Longrightarrow> length (rest st') \<le> length (rest st)"
proof (induction ci k st arbitrary: st' rule: run.induct)
  case (3 ci cs k st)
  then show ?case
    by (cases "rest st") (fastforce simp: advance_def split: if_splits)+
next
  case (4 ci cs k st)
  then show ?case
    by (cases "rest st") (fastforce simp: advance_def split: if_splits)+
next
  case (5 ci k st)
  then show ?case
    by (cases "rest st") (fastforce simp: advance_def split: if_splits)+
next
  case (7 ci a b k st)
  then show ?case by (auto split: option.splits)
next
  case (8 ci r k st)
  then show ?case by (auto split: option.splits)
next
  case (9 ci n r k st)
  then show ?case by (auto split: if_splits)
next
  case (10 ci r k st)
  then show ?case by (auto split: option.splits)
next
  case (11 ci n r k st)
  then show ?case by (auto split: if_splits)
next
  case (13 ci i n k st)
  then show ?case by fastforce
qed (auto split: if_splits)

lemma run_consuming:
  "consuming r \<Longrightarrow> run ci (Rx r # k) st = Some st' \<Longrightarrow> length (rest st') < length (rest st)"
proof (induction r arbitrary: k st)
  case (Sym cs)
  then show ?case
    by (cases "rest st") (auto simp: advance_def split: if_splits dest!: run_rest_le)
next
  case (NSym cs)
  then show ?case
    by (cases "rest st") (auto simp: advance_def split: if_splits dest!: run_rest_le)
next
  case Dot
  then show ?case
    by (cases "rest st") (auto simp: advance_def split: if_splits dest!: run_rest_le)
qed auto

lemma exec_from_consuming:
  "exec_from ci r pre s = Some m \<Longrightarrow> consuming r \<Longrightarrow> match0 m \<noteq> []"
proof (induction ci r pre s rule: exec_from.induct)
  case (1 ci r pre s)
  show ?case
  proof (cases "run ci [Rx r] \<lparr>behind = pre, rest = s, caps = []\<rparr>")
    case None
    then show ?thesis using 1 by (cases s) auto
  next
    case (Some st)
    then have "length (rest st) < length s"
      using run_consuming[OF 1(3) Some] by simp
    then show ?thesis using 1(2) Some by auto
  qed
qed

section \<open>Safety Gate: the first blocked pattern that matches is terminal\<close>

lemma blocked_fragment_matched:
  assumes "test True p payload" and "consuming p"
  obtains m where "exec True p payload = Some m" and "match0 m \<noteq> []"
    and "blocked_fragment p payload = match0 m"
proof -
  from assms(1) obtain m where m: "exec True p payload = Some m"
    by (auto simp: test_def)
  then have ne: "match0 m \<noteq> []"
    using exec_from_consuming[of True p "[]" payload m] assms(2) by (simp add: exec_def)
  then have "blocked_fragment p payload = match0 m"
    using m by (simp add: blocked_fragment_def)
  with m ne show thesis by (rule that)
qed

lemma check_blocked_first:
  assumes "i < length rules" and "test True (fst (rules ! i)) payload"
    and "\<forall>j<i. \<not> test True (fst (rules ! j)) payload"
  shows "check_blocked rules n payload =
           (Some (unsafe_verdict (rules ! i) payload), map BlockedRule [n ..< n + Suc i])"
  using assms
proof (induction rules arbitrary: i n)
  case Nil
  then show ?case by simp
next
  case (Cons rule rules)
  show ?case
  proof (cases i)
    case 0
    then show ?thesis using Cons.prems by simp
  next
    case (Suc i')
    have no: "\<not> test True (fst rule) payload"
      using Cons.prems(3) Suc by fastforce
    have "check_blocked rules (Suc n) payload =
            (Some (unsafe_verdict (rules ! i') payload), map BlockedRule [Suc n ..< Suc n + Suc i'])"
    proof (rule Cons.IH)
      show "i' < length rules" using Cons.prems(1) Suc by simp
      show "test True (fst (rules ! i')) payload" using Cons.prems(2) Suc by simp
      show "\<forall>j<i'. \<not> test True (fst (rules ! j)) payload"
        using Cons.prems(3) Suc by fastforce
    qed
    then show ?thesis using no Suc by (simp add: upt_conv_Cons)
  qed
qed

lemma first_matching_rule:
  assumes "\<exists>rule\<in>set rules. test True (fst rule) payload"
  shows "\<exists>i<length rules. test True (fst (rules ! i)) payload \<and>
           (\<forall>j<i. \<not> test True (fst (rules ! j)) payload)"
proof -
  let ?P = "\<lambda>i. i < length rules \<and> test True (fst (rules ! i)) payload"
  from assms obtain rule where "rule \<in> set rules" and "test True (fst rule) payload"
    by blast
  then obtain i0 where "?P i0"
    by (metis in_set_conv_nth)
  then have least: "?P (LEAST i. ?P i)" by (rule LeastI)
  have "\<not> test True (fst (rules ! j)) payload" if "j < (LEAST i. ?P i)" for j
  proof
    assume "test True (fst (rules ! j)) payload"
    moreover have "j < length rules" using that least by simp
    ultimately have "(LEAST i. ?P i) \<le> j" by (intro Least_le) simp
    then show False using that by simp
  qed
  then show ?thesis using least by blast
qed

lemma blocked_all_consuming: "\<forall>rule\<in>set BLOCKED_PATTERNS. consuming (fst rule)"
  by (simp add: BLOCKED_PATTERNS_def rx_defs)

lemma fetch_matches_here:
  "run True [Rx (fst (BLOCKED_PATTERNS ! 0))] \<lparr>behind = pre, rest = ''fetch('' @ b, caps = []\<rparr>
     = Some \<lparr>behind = rev ''fetch('' @ pre, rest = b, caps = []\<rparr>"
  by (simp add: BLOCKED_PATTERNS_def rx_defs ch_defs)

lemma fetch_found: "exec_from True (fst (BLOCKED_PATTERNS ! 0)) pre (a @ ''fetch('' @ b) \<noteq> None"
proof (induction a arbitrary: pre)
  case Nil
  show ?case using fetch_matches_here[of pre b] by simp
next
  case (Cons x a)
  show ?case
  proof (cases "run True [Rx (fst (BLOCKED_PATTERNS ! 0))]
                  \<lparr>behind = pre, rest = (x # a) @ ''fetch('' @ b, caps = []\<rparr>")
    case None
    then show ?thesis using Cons.IH[of "x # pre"] by simp
  next
    case (Some st)
    then show ?thesis by simp
  qed
qed

lemma fetch_tested: "test True (fst (BLOCKED_PATTERNS ! 0)) (a @ ''fetch('' @ b)"
  using fetch_found[of "[]" a b] by (simp add: test_def exec_def)

text \<open>
  Claim C1. For every payload and action kind: if some pattern of the blocked table matches
  the payload, \<open>checkSafety\<close> returns \<open>safe = false\<close> with the fragment matched by the first
  such rule of the table and that rule's reason, and the rules tested are exactly the
  blocked rules up to and including that one: no later blocked rule and no flagged rule is
  tested. In particular every payload that contains \<open>fetch(\<close> gets \<open>safe = false\<close> with the
  reason \<open>Network requests are not allowed\<close>, after the test of the first rule only.
\<close>

theorem checkSafety_first_block_terminal:
  "((\<exists>rule\<in>set BLOCKED_PATTERNS. test True (fst rule) payload) \<longrightarrow>
      (\<exists>i m. i < length BLOCKED_PATTERNS \<and>
         exec True (fst (BLOCKED_PATTERNS ! i)) payload = Some m \<and> match0 m \<noteq> [] \<and>
         (\<forall>j<i. \<not> test True (fst (BLOCKED_PATTERNS ! j)) payload) \<and>
         checkSafety_traced payload kind =
           (\<lparr>safe = False, blocked = Some (match0 m),
             blockedReason = Some (snd (BLOCKED_PATTERNS ! i)),
             requiresConfirmation = None, confirmationMessage = None, flaggedPatterns = None\<rparr>,
            map BlockedRule [0 ..< Suc i])))
   \<and> (\<exists>fragment. fragment \<noteq> [] \<and>
         checkSafety_traced (a @ ''fetch('' @ b) kind =
           (\<lparr>safe = False, blocked = Some fragment,
             blockedReason = Some ''Network requests are not allowed'',
             requiresConfirmation = None, confirmationMessage = None, flaggedPatterns = None\<rparr>,
            [BlockedRule 0]))"
proof (intro conjI impI)
  assume "\<exists>rule\<in>set BLOCKED_PATTERNS. test True (fst rule) payload"
  then obtain i where i: "i < length BLOCKED_PATTERNS"
      and hit: "test True (fst (BLOCKED_PATTERNS ! i)) payload"
      and first: "\<forall>j<i. \<not> test True (fst (BLOCKED_PATTERNS ! j)) payload"
    using first_matching_rule by blast
  have cons: "consuming (fst (BLOCKED_PATTERNS ! i))"
    using blocked_all_consuming i nth_mem by blast
  obtain m where m: "exec True (fst (BLOCKED_PATTERNS ! i)) payload = Some m"
      "match0 m \<noteq> []" "blocked_fragment (fst (BLOCKED_PATTERNS ! i)) payload = match0 m"
    by (rule blocked_fragment_matched[OF hit cons])
  have "check_blocked BLOCKED_PATTERNS 0 payload =
          (Some (unsafe_verdict (BLOCKED_PATTERNS ! i) payload), map BlockedRule [0 ..< 0 + Suc i])"
    using i hit first by (rule check_blocked_first)
  then have "checkSafety_traced payload kind =
           (\<lparr>safe = False, blocked = Some (match0 m),
             blockedReason = Some (snd (BLOCKED_PATTERNS ! i)),
             requiresConfirmation = None, confirmationMessage = None, flaggedPatterns = None\<rparr>,
            map BlockedRule [0 ..< Suc i])"
    using m(3) by (simp add: checkSafety_traced_def unsafe_verdict_def)
  then show "\<exists>i m. i < length BLOCKED_PATTERNS \<and>
         exec True (fst (BLOCKED_PATTERNS ! i)) payload = Some m \<and> match0 m \<noteq> [] \<and>
         (\<forall>j<i. \<not> test True (fst (BLOCKED_PATTERNS ! j)) payload) \<and>
         checkSafety_traced payload kind =
           (\<lparr>safe = False, blocked = Some (match0 m),
             blockedReason = Some (snd (BLOCKED_PATTERNS ! i)),
             requiresConfirmation = None, confirmationMessage = None, flaggedPatterns = None\<rparr>,
            map BlockedRule [0 ..< Suc i])"
    using i m(1,2) first by blast
next
  let ?code = "a @ ''fetch('' @ b"
  have len: "0 < length BLOCKED_PATTERNS" by (simp add: BLOCKED_PATTERNS_def)
  have hit: "test True (fst (BLOCKED_PATTERNS ! 0)) ?code" by (rule fetch_tested)
  have cons: "consuming (fst (BLOCKED_PATTERNS ! 0))"
    using blocked_all_consuming len nth_mem by blast
  obtain m where "exec True (fst (BLOCKED_PATTERNS ! 0)) ?code = Some m"
    and m: "match0 m \<noteq> []" "blocked_fragment (fst (BLOCKED_PATTERNS ! 0)) ?code = match0 m"
    by (rule blocked_fragment_matched[OF hit cons])
  have reason: "snd (BLOCKED_PATTERNS ! 0) = ''Network requests are not allowed''"
    by (simp add: BLOCKED_PATTERNS_def)
  have "check_blocked BLOCKED_PATTERNS 0 ?code =
          (Some (unsafe_verdict (BLOCKED_PATTERNS ! 0) ?code), map BlockedRule [0 ..< 0 + Suc 0])"
    using len hit by (rule check_blocked_first) simp
  then have "checkSafety_traced ?code kind =
           (\<lparr>safe = False, blocked = Some (match0 m),
             blockedReason = Some ''Network requests are not allowed'',
             requiresConfirmation = None, confirmationMessage = None, flaggedPatterns = None\<rparr>,
            [BlockedRule 0])"
    using m(2) reason by (simp add: checkSafety_traced_def unsafe_verdict_def)
  then show "\<exists>fragment. fragment \<noteq> [] \<and>
         checkSafety_traced ?code kind =
           (\<lparr>safe = False, blocked = Some fragment,
             blockedReason = Some ''Network requests are not allowed'',
             requiresConfirmation = None, confirmationMessage = None, flaggedPatterns = None\<rparr>,
            [BlockedRule 0])"
    using m(1) by blast
qed

theorem checkSafety_first_block_terminal_witness:
  "test True (fst (BLOCKED_PATTERNS ! 3)) ''Axios.get(u)''
   \<and> (\<exists>i m. i < length BLOCKED_PATTERNS \<and>
         exec True (fst (BLOCKED_PATTERNS ! i)) ''Axios.get(u)'' = Some m \<and>
         match0 m \<noteq> [] \<and>
         (\<forall>j<i. \<not> test True (fst (BLOCKED_PATTERNS ! j)) ''Axios.get(u)'') \<and>
         checkSafety_traced ''Axios.get(u)'' Modify =
           (\<lparr>safe = False, blocked = Some (match0 m),
             blockedReason = Some (snd (BLOCKED_PATTERNS ! i)),
             requiresConfirmation = None, confirmationMessage = None, flaggedPatterns = None\<rparr>,
            map BlockedRule [0 ..< Suc i]))
   \<and> checkSafety_traced ''Axios.get(u)'' Modify =
       (\<lparr>safe = False, blocked = Some ''Axios.'',
         blockedReason = Some ''Network requests are not allowed'',
         requiresConfirmation = None, confirmationMessage = None, flaggedPatterns = None\<rparr>,
        [BlockedRule 0, BlockedRule 1, BlockedRule 2, BlockedRule 3])"
proof -
  have hit: "test True (fst (BLOCKED_PATTERNS ! 3)) ''Axios.get(u)''"
    by (simp add: test_def exec_def BLOCKED_PATTERNS_def rx_defs ch_defs)
  have "BLOCKED_PATTERNS ! 3 \<in> set BLOCKED_PATTERNS"
    by (simp add: BLOCKED_PATTERNS_def)
  with hit have "\<exists>rule\<in>set BLOCKED_PATTERNS. test True (fst rule) ''Axios.get(u)''"
    by blast
  moreover have "checkSafety_traced ''Axios.get(u)'' Modify =
       (\<lparr>safe = False, blocked = Some ''Axios.'',
         blockedReason = Some ''Network requests are not allowed'',
         requiresConfirmation = None, confirmationMessage = None, flaggedPatterns = None\<rparr>,
        [BlockedRule 0, BlockedRule 1, BlockedRule 2, BlockedRule 3])"
    by (simp add: checkSafety_traced_def unsafe_verdict_def blocked_fragment_def test_def
        exec_def BLOCKED_PATTERNS_def rx_defs ch_defs)
  ultimately show ?thesis
    using hit checkSafety_first_block_terminal[of "''Axios.get(u)''" Modify "[]" "[]"]
    by blast
qed

section \<open>Fast path: no model call\<close>

lemma executeScript_effects:
  "snd (executeScript sf func) = (if injection sf = Runs then snd (func sf) else [])"
  by (cases "injection sf") (auto simp: executeScript_def split: prod.splits sum.splits)

lemma click_first_effects: "filter is_model_request (snd (click_first t els)) = []"
proof (induction els)
  case Nil
  then show ?case by simp
next
  case (Cons el els)
  then show ?case by (cases t) simp_all
qed

lemma snd_case_result:
  "snd (case p of (Inl e, es) \<Rightarrow> (Inl e, es) | (Inr r, es) \<Rightarrow> (f r es, es)) = snd p"
  by (cases p) (auto split: sum.splits)

lemma fastPath_executeScroll_effects:
  "snd (fastPath_executeScroll ps tabId sf) =
     (if injection sf = Runs
      then snd (fastPath_scroll_script (map_of ps ''direction'')
                  (parseInt10 (or_default (map_of ps ''amount'') ''400'')) sf)
      else [])"
  by (simp add: fastPath_executeScroll_def executeScript_effects[symmetric] Let_def
      split: prod.splits sum.splits)

lemma no_model_scroll: "filter is_model_request (snd (fastPath_executeScroll ps tabId sf)) = []"
  by (simp add: fastPath_executeScroll_effects fastPath_scroll_script_def)

lemma no_model_back: "filter is_model_request (snd (executeGoBack tabId sf)) = []"
  by (cases "injection sf") (simp_all add: executeGoBack_def executeScript_def)

lemma no_model_forward: "filter is_model_request (snd (executeGoForward tabId sf)) = []"
  by (cases "injection sf") (simp_all add: executeGoForward_def executeScript_def)

lemma no_model_reload: "filter is_model_request (snd (executeReload tabId sf)) = []"
  by (simp add: executeReload_def split: option.splits)

lemma no_model_navigate: "filter is_model_request (snd (fastPath_executeNavigate ps tabId sf)) = []"
  by (simp add: fastPath_executeNavigate_def Let_def split: option.splits)

lemma executeClickByText_effects:
  "snd (executeClickByText ps tabId sf) =
     (if injection sf = Runs then snd (click_script (map_of ps ''text'') sf) else [])"
  by (simp add: executeClickByText_def executeScript_effects[symmetric] Let_def
      split: prod.splits sum.splits)

lemma no_model_click: "filter is_model_request (snd (executeClickByText ps tabId sf)) = []"
  by (simp add: executeClickByText_effects click_script_def click_first_effects)

lemma no_model_dispatch:
  "filter is_model_request (snd (executeFastPathAction a ps tabId sf)) = []"
  by (cases a)
     (simp_all add: executeFastPathAction_def no_model_scroll no_model_back no_model_forward
        no_model_reload no_model_navigate no_model_click)

lemma checkFastPath_scroll_down:
  "checkFastPath ''scroll down'' =
     Inr \<lparr>matched = True, action = Some FP_scroll,
          params = Some [(''direction'', ''down''), (''amount'', ''400'')]\<rparr>"
  by (simp add: checkFastPath_def FAST_PATH_RULES_def trim_def exec_def
      direction_params_def capture_def group_def or_default_def toLowerCase_def lower_char_def
      rx_defs ch_defs)

text \<open>
  Claim C2. \<open>checkFastPath\<close> is a function of the command string alone: it has no effect. For
  every command that it matches, and indeed for every action kind and every parameters,
  the effects of \<open>executeFastPathAction\<close> contain no request to a model provider, also
  among the effects it schedules.
\<close>

theorem fast_path_never_calls_model:
  "(checkFastPath command = Inr r \<and> matched r \<and> action r = Some a \<and> params r = Some ps \<longrightarrow>
      filter is_model_request (snd (executeFastPathAction a ps tabId sf)) = [])
   \<and> filter is_model_request (snd (executeFastPathAction a' ps' tabId sf)) = []"
  by (simp add: no_model_dispatch)

theorem fast_path_never_calls_model_witness:
  "checkFastPath ''scroll down'' =
     Inr \<lparr>matched = True, action = Some FP_scroll,
          params = Some [(''direction'', ''down''), (''amount'', ''400'')]\<rparr>
   \<and> filter is_model_request
        (snd (executeFastPathAction FP_scroll [(''direction'', ''down''), (''amount'', ''400'')]
                1 example_page)) = []
   \<and> snd (executeFastPathAction FP_scroll [(''direction'', ''down''), (''amount'', ''400'')]
            1 example_page) = [WindowScrollBy (Some 400)]"
proof -
  have "snd (executeFastPathAction FP_scroll [(''direction'', ''down''), (''amount'', ''400'')]
              1 example_page) = [WindowScrollBy (Some 400)]"
    by (simp add: executeFastPathAction_def fastPath_executeScroll_def executeScript_def
        fastPath_scroll_script_def example_page_def or_default_def parseInt10_def
        digits_value_def is_space_def is_digit_def)
  then show ?thesis
    using checkFastPath_scroll_down
      fast_path_never_calls_model[of "''scroll down''"
        "\<lparr>matched = True, action = Some FP_scroll,
          params = Some [(''direction'', ''down''), (''amount'', ''400'')]\<rparr>"
        FP_scroll "[(''direction'', ''down''), (''amount'', ''400'')]" 1 example_page]
    by simp
qed

section \<open>Fast path: the quoted-text click\<close>

lemma checkFastPath_click_sign_in:
  "checkFastPath click_sign_in =
     Inr \<lparr>matched = True, action = Some FP_clickByText, params = Some [(''text'', ''Sign In'')]\<rparr>"
  by (simp add: click_sign_in_def checkFastPath_def FAST_PATH_RULES_def trim_def exec_def
      navigate_prefix_def alnum_def quotes2_def single_param_def capture_def group_def
      rx_defs ch_defs)

lemma click_first_none:
  "\<forall>el\<in>set els. \<not> text_matches t el \<Longrightarrow>
   click_first (Some t) els =
     (Inr \<lparr>click_success = False, found = False,
           click_error = Some (''No element found with text '' @ [CHR 0x22] @ t @ [CHR 0x22])\<rparr>, [])"
  by (induction els) (simp_all add: shown_def)

lemma executeClickByText_not_found:
  assumes "injection sf = Runs"
    and "\<forall>el\<in>set (querySelectorAll sf clickable_selector). \<not> text_matches ''Sign In'' el"
  shows \<open>executeFastPathAction FP_clickByText [(''text'', ''Sign In'')] tabId sf =
           (Inr (failed ''No element found with text "Sign In"''), [])\<close>
  using click_first_none[OF assms(2)] assms(1)
  by (simp add: executeFastPathAction_def executeClickByText_def executeScript_def
      click_script_def or_default_def)

lemma executeClickByText_no_result:
  assumes "injection sf = NoResult"
  shows \<open>executeFastPathAction FP_clickByText [(''text'', ''Sign In'')] tabId sf =
           (Inr (failed ''Could not find element with text "Sign In"''), [])\<close>
  using assms
  by (simp add: executeFastPathAction_def executeClickByText_def executeScript_def
      or_default_def shown_def)

lemma click_first_some:
  \<open>\<exists>r es. click_first (Some t) els = (Inr r, es)
       \<and> (found r \<or> click_error r = Some (''No element found with text "'' @ t @ ''"''))\<close>
  by (induction els) (simp_all add: shown_def)

lemma executeClickByText_could_not_find:
  assumes "fst (executeFastPathAction FP_clickByText [(''text'', ''Sign In'')] tabId sf) = Inr r"
    and \<open>ExecutionResult.error r = Some ''Could not find element with text "Sign In"''\<close>
  shows "injection sf = NoResult"
proof (cases "injection sf")
  case (Rejects msg)
  then have "fst (executeFastPathAction FP_clickByText [(''text'', ''Sign In'')] tabId sf)
               = Inl (Error msg)"
    by (simp add: executeFastPathAction_def executeClickByText_def executeScript_def)
  then show ?thesis using assms(1) by simp
next
  case NoResult
  then show ?thesis .
next
  case Runs
  obtain c es where c: "click_first (Some ''Sign In'') (querySelectorAll sf clickable_selector)
                          = (Inr c, es)"
    and d: \<open>found c \<or> click_error c = Some (''No element found with text "'' @ ''Sign In'' @ ''"'')\<close>
    using click_first_some by blast
  have \<open>ExecutionResult.error r \<noteq> Some ''Could not find element with text "Sign In"''\<close>
  proof (cases "found c")
    case True
    then have "fst (executeFastPathAction FP_clickByText [(''text'', ''Sign In'')] tabId sf)
                 = Inr (succeeded (''Clicked '' @ [CHR 0x22] @ ''Sign In'' @ [CHR 0x22]))"
      using Runs c
      by (simp add: executeFastPathAction_def executeClickByText_def executeScript_def
          click_script_def shown_def)
    then show ?thesis using assms(1) by (auto simp: succeeded_def)
  next
    case False
    then have \<open>click_error c = Some ''No element found with text "Sign In"''\<close>
      using d by simp
    then have \<open>fst (executeFastPathAction FP_clickByText [(''text'', ''Sign In'')] tabId sf)
                 = Inr (failed ''No element found with text "Sign In"'')\<close>
      using Runs c False
      by (simp add: executeFastPathAction_def executeClickByText_def executeScript_def
          click_script_def or_default_def)
    then show ?thesis using assms(1) by (auto simp: failed_def)
  qed
  then show ?thesis using assms(2) by simp
qed

lemma login_button_no_match: "\<not> text_matches ''Sign In'' login_button"
  by (simp add: text_matches_def login_button_def getAttribute_def toLowerCase_def trim_def
      lower_char_def is_space_def is_upper_def)

text \<open>
  Claim C8, as stated, fails: on a page where the injected script runs and finds no
  element with the text, the error of the outcome is the script's own message,
  \<open>No element found with text "Sign In"\<close>, not \<open>Could not find element with text "Sign In"\<close>.
\<close>

theorem click_sign_in_error_counterexample:
  \<open>querySelectorAll example_page clickable_selector = [login_button]
   \<and> \<not> text_matches ''Sign In'' login_button
   \<and> fst (executeFastPathAction FP_clickByText [(''text'', ''Sign In'')] 1 example_page)
       = Inr (failed ''No element found with text "Sign In"'')
   \<and> fst (executeFastPathAction FP_clickByText [(''text'', ''Sign In'')] 1 example_page)
       \<noteq> Inr (failed ''Could not find element with text "Sign In"'')\<close>
proof -
  have q: "querySelectorAll example_page clickable_selector = [login_button]"
    by (simp add: example_page_def)
  have \<open>executeFastPathAction FP_clickByText [(''text'', ''Sign In'')] 1 example_page =
          (Inr (failed ''No element found with text "Sign In"''), [])\<close>
    by (rule executeClickByText_not_found)
       (simp_all add: example_page_def login_button_no_match)
  then show ?thesis
    using q login_button_no_match by (simp add: failed_def)
qed

text \<open>
  Claim C8, amended. For the command \<open>click "Sign In"\<close>, \<open>checkFastPath\<close> returns a match with
  action \<open>clickByText\<close> and parameters \<open>{text: "Sign In"}\<close>. When the injected script runs
  and no candidate element's trimmed text content, aria-label or value equals \<open>Sign In\<close>
  ignoring case, \<open>executeFastPathAction\<close> returns \<open>success = false\<close> with the error
  \<open>No element found with text "Sign In"\<close>. The error
  \<open>Could not find element with text "Sign In"\<close> is returned when the injection yields no
  result, and only then: an outcome with that error comes from no other surface. Neither
  case touches the page.
\<close>

theorem click_sign_in_not_found:
  \<open>checkFastPath click_sign_in =
     Inr \<lparr>matched = True, action = Some FP_clickByText, params = Some [(''text'', ''Sign In'')]\<rparr>
   \<and> (injection sf = Runs \<and>
        (\<forall>el\<in>set (querySelectorAll sf clickable_selector). \<not> text_matches ''Sign In'' el) \<longrightarrow>
        executeFastPathAction FP_clickByText [(''text'', ''Sign In'')] tabId sf =
          (Inr (failed ''No element found with text "Sign In"''), []))
   \<and> (injection sf = NoResult \<longrightarrow>
        executeFastPathAction FP_clickByText [(''text'', ''Sign In'')] tabId sf =
          (Inr (failed ''Could not find element with text "Sign In"''), []))
   \<and> (fst (executeFastPathAction FP_clickByText [(''text'', ''Sign In'')] tabId sf) = Inr r
        \<and> ExecutionResult.error r = Some ''Could not find element with text "Sign In"'' \<longrightarrow>
        injection sf = NoResult)\<close>
proof (intro conjI impI)
  show "checkFastPath click_sign_in =
     Inr \<lparr>matched = True, action = Some FP_clickByText, params = Some [(''text'', ''Sign In'')]\<rparr>"
    by (rule checkFastPath_click_sign_in)
next
  assume "injection sf = Runs \<and>
        (\<forall>el\<in>set (querySelectorAll sf clickable_selector). \<not> text_matches ''Sign In'' el)"
  then show \<open>executeFastPathAction FP_clickByText [(''text'', ''Sign In'')] tabId sf =
          (Inr (failed ''No element found with text "Sign In"''), [])\<close>
    using executeClickByText_not_found[of sf tabId] by simp
next
  assume "injection sf = NoResult"
  then show \<open>executeFastPathAction FP_clickByText [(''text'', ''Sign In'')] tabId sf =
          (Inr (failed ''Could not find element with text "Sign In"''), [])\<close>
    by (rule executeClickByText_no_result)
next
  assume \<open>fst (executeFastPathAction FP_clickByText [(''text'', ''Sign In'')] tabId sf) = Inr r
        \<and> ExecutionResult.error r = Some ''Could not find element with text "Sign In"''\<close>
  then show "injection sf = NoResult"
    using executeClickByText_could_not_find[of tabId sf r] by simp
qed

theorem click_sign_in_not_found_witness:
  \<open>injection example_page = Runs
   \<and> list_all (\<lambda>el. \<not> text_matches ''Sign In'' el) (querySelectorAll example_page clickable_selector)
   \<and> executeFastPathAction FP_clickByText [(''text'', ''Sign In'')] 1 example_page =
        (Inr (failed ''No element found with text "Sign In"''), [])
   \<and> injection silent_page = NoResult
   \<and> executeFastPathAction FP_clickByText [(''text'', ''Sign In'')] 1 silent_page =
        (Inr (failed ''Could not find element with text "Sign In"''), [])
   \<and> ExecutionResult.error (failed ''Could not find element with text "Sign In"'') =
        Some ''Could not find element with text "Sign In"''\<close>
proof -
  have 1: "injection example_page = Runs" by (simp add: example_page_def)
  have 2: "\<forall>el\<in>set (querySelectorAll example_page clickable_selector). \<not> text_matches ''Sign In'' el"
    using login_button_no_match by (simp add: example_page_def)
  have 3: \<open>fst (executeFastPathAction FP_clickByText [(''text'', ''Sign In'')] 1 silent_page) =
             Inr (failed ''Could not find element with text "Sign In"'')\<close>
    by (simp add: executeFastPathAction_def executeClickByText_def executeScript_def
        or_default_def shown_def silent_page_def)
  have 4: \<open>ExecutionResult.error (failed ''Could not find element with text "Sign In"'') =
             Some ''Could not find element with text "Sign In"''\<close>
    by (simp add: failed_def)
  have 5: "injection silent_page = NoResult"
    using 3 4 click_sign_in_not_found[of silent_page 1
        \<open>failed ''Could not find element with text "Sign In"''\<close>]
    by blast
  show ?thesis
    using 1 2 4 5 click_sign_in_not_found[of example_page 1] click_sign_in_not_found[of silent_page 1]
    by (simp add: list_all_iff)
qed

section \<open>Scroll and extract report success whenever the injection resolves\<close>

lemma executeScroll_resolved:
  assumes "\<forall>msg. injection sf \<noteq> Rejects msg"
  shows "fst (executeScroll direction tabId sf) = Inr (succeeded (''Scrolled '' @ direction))"
  using assms
  by (cases "injection sf")
     (simp_all add: executeScroll_def executeScript_def scroll_script_def Let_def)

lemma executeExtract_resolved:
  assumes "\<forall>msg. injection sf \<noteq> Rejects msg"
  shows "\<exists>text. fst (executeExtract sel tabId sf) = Inr (succeeded text)"
proof (cases "injection sf")
  case (Rejects msg)
  then show ?thesis using assms by simp
next
  case NoResult
  then have "fst (executeExtract sel tabId sf) =
      Inr (succeeded (or_default None ''No content extracted''))"
    by (simp add: executeExtract_def executeScript_def)
  then show ?thesis by (rule exI)
next
  case Runs
  then have "fst (executeExtract sel tabId sf) =
      Inr (succeeded (or_default (map_option (\<lambda>t. slice0 t 1000)
             (innerText (case querySelector sf sel of None \<Rightarrow> body sf | Some e \<Rightarrow> e)))
           ''No content extracted''))"
    by (simp add: executeExtract_def executeScript_def extract_script_def)
  then show ?thesis by (rule exI)
qed

lemma fastPath_executeScroll_resolved:
  assumes "\<forall>msg. injection sf \<noteq> Rejects msg"
  shows "fst (executeFastPathAction FP_scroll ps tabId sf) =
           Inr (succeeded (''Scrolled '' @ shown (map_of ps ''direction'')))"
  using assms
  by (cases "injection sf")
     (simp_all add: executeFastPathAction_def fastPath_executeScroll_def executeScript_def
        fastPath_scroll_script_def Let_def)

lemma executeScroll_unrecognized:
  assumes "toLowerCase direction \<notin> {''down'', ''up'', ''top'', ''bottom''}"
  shows "snd (executeScroll direction tabId sf) = []"
  using assms
  by (cases "injection sf")
     (simp_all add: executeScroll_def executeScript_def scroll_script_def Let_def)

lemma executeScroll_rejected:
  "injection sf = Rejects msg \<Longrightarrow> executeScroll direction tabId sf = (Inl (Error msg), [])"
  by (simp add: executeScroll_def executeScript_def)

lemma executeExtract_rejected:
  "injection sf = Rejects msg \<Longrightarrow> executeExtract sel tabId sf = (Inl (Error msg), [])"
  by (simp add: executeExtract_def executeScript_def)

lemma fastPath_executeScroll_rejected:
  "injection sf = Rejects msg \<Longrightarrow>
   executeFastPathAction FP_scroll ps tabId sf = (Inl (Error msg), [])"
  by (simp add: executeFastPathAction_def fastPath_executeScroll_def executeScript_def)

lemma never_unsuccessful:
  "fst (executeScroll direction tabId sf) \<noteq> Inr (r\<lparr>ExecutionResult.success := False\<rparr>)"
  "fst (executeExtract sel tabId sf) \<noteq> Inr (r\<lparr>ExecutionResult.success := False\<rparr>)"
  "fst (executeFastPathAction FP_scroll ps tabId sf) \<noteq> Inr (r\<lparr>ExecutionResult.success := False\<rparr>)"
proof -
  have "ExecutionResult.success (succeeded m) \<noteq> ExecutionResult.success (r\<lparr>ExecutionResult.success := False\<rparr>)" for m
    by (simp add: succeeded_def)
  then have ne: "succeeded m \<noteq> r\<lparr>ExecutionResult.success := False\<rparr>" for m
    by metis
  show "fst (executeScroll direction tabId sf) \<noteq> Inr (r\<lparr>ExecutionResult.success := False\<rparr>)"
    using ne by (cases "injection sf")
      (simp_all add: executeScroll_def executeScript_def scroll_script_def Let_def)
  show "fst (executeExtract sel tabId sf) \<noteq> Inr (r\<lparr>ExecutionResult.success := False\<rparr>)"
    using ne by (cases "injection sf")
      (simp_all add: executeExtract_def executeScript_def extract_script_def Let_def)
  show "fst (executeFastPathAction FP_scroll ps tabId sf) \<noteq> Inr (r\<lparr>ExecutionResult.success := False\<rparr>)"
    using ne by (cases "injection sf")
      (simp_all add: executeFastPathAction_def fastPath_executeScroll_def executeScript_def
        fastPath_scroll_script_def Let_def)
qed

text \<open>
  Claim C10, as stated, fails: on a surface that refuses the script injection (a
  browser-internal page), none of the three primitives returns an outcome; each rejects
  with the error of the injection.
\<close>

theorem scroll_extract_rejection_counterexample:
  "executeScroll ''down'' 1 restricted_page = (Inl (Error ''Cannot access a chrome:// URL''), [])
   \<and> executeExtract ''main'' 1 restricted_page = (Inl (Error ''Cannot access a chrome:// URL''), [])
   \<and> executeFastPathAction FP_scroll [(''direction'', ''down''), (''amount'', ''400'')] 1
        restricted_page = (Inl (Error ''Cannot access a chrome:// URL''), [])"
  by (simp add: executeScroll_rejected executeExtract_rejected fastPath_executeScroll_rejected
      restricted_page_def)

text \<open>
  Claim C10, amended. For every input and every surface on which the script injection
  resolves (with or without a result), the Executor's scroll primitive, its extract
  primitive and the fast-path scroll return an outcome with \<open>success = true\<close>; with an
  unrecognized direction the scroll primitive performs no scrolling. On every surface
  whatsoever, none of the three returns an outcome with \<open>success = false\<close>.
\<close>

theorem scroll_extract_always_succeed:
  "((\<forall>msg. injection sf \<noteq> Rejects msg) \<longrightarrow>
      fst (executeScroll direction tabId sf) = Inr (succeeded (''Scrolled '' @ direction))
      \<and> (\<exists>text. fst (executeExtract sel tabId sf) = Inr (succeeded text))
      \<and> fst (executeFastPathAction FP_scroll ps tabId sf) =
           Inr (succeeded (''Scrolled '' @ shown (map_of ps ''direction''))))
   \<and> (toLowerCase direction \<notin> {''down'', ''up'', ''top'', ''bottom''} \<longrightarrow>
        snd (executeScroll direction tabId sf) = [])
   \<and> fst (executeScroll direction tabId sf) \<noteq> Inr (r\<lparr>ExecutionResult.success := False\<rparr>)
   \<and> fst (executeExtract sel tabId sf) \<noteq> Inr (r\<lparr>ExecutionResult.success := False\<rparr>)
   \<and> fst (executeFastPathAction FP_scroll ps tabId sf) \<noteq> Inr (r\<lparr>ExecutionResult.success := False\<rparr>)"
proof (intro conjI impI)
  assume a: "\<forall>msg. injection sf \<noteq> Rejects msg"
  show "fst (executeScroll direction tabId sf) = Inr (succeeded (''Scrolled '' @ direction))"
    using a by (rule executeScroll_resolved)
  show "\<exists>text. fst (executeExtract sel tabId sf) = Inr (succeeded text)"
    using a by (rule executeExtract_resolved)
  show "fst (executeFastPathAction FP_scroll ps tabId sf) =
           Inr (succeeded (''Scrolled '' @ shown (map_of ps ''direction'')))"
    using a by (rule fastPath_executeScroll_resolved)
next
  assume "toLowerCase direction \<notin> {''down'', ''up'', ''top'', ''bottom''}"
  then show "snd (executeScroll direction tabId sf) = []"
    by (rule executeScroll_unrecognized)
qed (rule never_unsuccessful)+

theorem scroll_extract_always_succeed_witness:
  "injection example_page = Runs
   \<and> injection silent_page = NoResult
   \<and> executeScroll ''sideways'' 1 example_page = (Inr (succeeded ''Scrolled sideways''), [])
   \<and> executeScroll ''Down'' 1 example_page = (Inr (succeeded ''Scrolled Down''), [WindowScrollBy (Some 400)])
   \<and> fst (executeScroll ''sideways'' 1 silent_page) = Inr (succeeded ''Scrolled sideways'')
   \<and> executeExtract ''main'' 1 example_page = (Inr (succeeded ''Welcome Log in''), [])
   \<and> executeExtract ''main'' 1 silent_page = (Inr (succeeded ''No content extracted''), [])
   \<and> fst (executeFastPathAction FP_scroll [(''direction'', ''sideways'')] 1 example_page)
       = Inr (succeeded ''Scrolled sideways'')
   \<and> toLowerCase ''sideways'' \<notin> {''down'', ''up'', ''top'', ''bottom''}"
proof -
  have inj: "\<forall>msg. injection example_page \<noteq> Rejects msg" "\<forall>msg. injection silent_page \<noteq> Rejects msg"
    "injection example_page = Runs" "injection silent_page = NoResult"
    by (simp_all add: example_page_def silent_page_def)
  have low: "toLowerCase ''sideways'' \<notin> {''down'', ''up'', ''top'', ''bottom''}"
    "toLowerCase ''Down'' = ''down''"
    by (simp_all add: toLowerCase_def lower_char_def is_upper_def)
  have ex: "executeExtract ''main'' 1 example_page = (Inr (succeeded ''Welcome Log in''), [])"
    "executeExtract ''main'' 1 silent_page = (Inr (succeeded ''No content extracted''), [])"
    "snd (executeScroll ''Down'' 1 example_page) = [WindowScrollBy (Some 400)]"
    by (simp_all add: executeExtract_def executeScroll_def executeScript_def extract_script_def
        scroll_script_def example_page_def silent_page_def or_default_def slice0_def low)
  show ?thesis
    using inj low ex
      scroll_extract_always_succeed[of example_page "''sideways''" 1 "''main''" "[(''direction'', ''sideways'')]"]
      scroll_extract_always_succeed[of example_page "''Down''" 1 "''main''" "[]"]
      scroll_extract_always_succeed[of silent_page "''sideways''" 1 "''main''" "[]"]
    by (simp add: prod_eq_iff shown_def)
qed

section \<open>Model Gateway: the limiter is not consulted\<close>

lemma callClaude_effects:
  "snd (callClaude remote key mdl sys usr tokens temp) =
     [ModelRequest ''https://api.anthropic.com/v1/messages'' mdl sys usr]"
  by (simp add: callClaude_def Let_def split: sum.splits)

lemma callOpenAI_effects:
  "snd (callOpenAI remote key mdl sys usr tokens temp) =
     [ModelRequest ''https://api.openai.com/v1/chat/completions'' mdl sys usr]"
  by (simp add: callOpenAI_def Let_def split: sum.splits)

lemma callAI_limiter: "snd (callAI remote options limiter) = limiter"
  by (simp add: callAI_def Let_def)

lemma callAI_independent:
  "fst (callAI remote options limiter) = fst (callAI remote options limiter')"
  by (simp add: callAI_def Let_def)

lemma callAI_requests:
  "length (filter is_model_request (snd (fst (callAI remote options limiter)))) =
     (if AICallOptions.apiKey options \<noteq> [] \<and> AICallOptions.provider options \<in> {''claude'', ''openai''} then 1 else 0)"
  by (simp add: callAI_def Let_def callClaude_effects callOpenAI_effects)

lemma callAI_resolved_once:
  assumes "fst (callAI remote options limiter) = (Inr v, effects)"
  shows "length (filter is_model_request effects) = 1"
proof -
  have "AICallOptions.apiKey options \<noteq> [] \<and> AICallOptions.provider options \<in> {''claude'', ''openai''}"
    using assms by (auto simp: callAI_def Let_def split: if_splits)
  then show ?thesis
    using callAI_requests[of remote options limiter] assms by simp
qed

text \<open>
  Claim C3, as stated, fails: with the exported limiter exhausted (\<open>canProceed()\<close> answers
  false and \<open>getWaitTime()\<close> reports 59 seconds), \<open>callAI\<close> still sends the request to the
  provider and returns its answer.
\<close>

theorem callAI_not_gated_counterexample:
  "fst (canProceed 2000 exhausted_limiter) = False
   \<and> getWaitTime 2000 exhausted_limiter = Finite 59000
   \<and> callAI (answering ''ok'') (intent_options ''click it'' example_dom example_settings)
        exhausted_limiter =
       ((Inr (JStr ''ok''),
         [ModelRequest ''https://api.anthropic.com/v1/messages'' ''claude-3-5-haiku-20241022''
            INTENT_SYSTEM_PROMPT (intent_user_message ''click it'' example_dom)]),
        exhausted_limiter)"
  by (simp add: canProceed_def getWaitTime_def exhausted_limiter_def rateLimiter_def
      newRateLimiter_def callAI_def callClaude_def claude_text_def and_then_def answering_def
      intent_options_def example_settings_def DEFAULT_SETTINGS_def Let_def)

text \<open>
  Claim C3, amended. \<open>callAI\<close> does not consult the shared rate limiter: whatever the state
  of the limiter, its result and its effects are the same and the limiter is left as it
  was; with a non-empty API key and a known provider it sends exactly one request to the
  remote provider. Admission by \<open>canProceed()\<close> and the wait of \<open>getWaitTime()\<close> are
  operations of the exported limiter that a caller has to apply itself.
\<close>

theorem callAI_ignores_limiter:
  "snd (callAI remote options limiter) = limiter
   \<and> fst (callAI remote options limiter) = fst (callAI remote options limiter')
   \<and> (AICallOptions.apiKey options \<noteq> [] \<and> AICallOptions.provider options \<in> {''claude'', ''openai''} \<longrightarrow>
        length (filter is_model_request (snd (fst (callAI remote options limiter)))) = 1)"
  using callAI_limiter[of remote options limiter] callAI_independent[of remote options limiter limiter']
    callAI_requests[of remote options limiter]
  by simp

theorem callAI_ignores_limiter_witness:
  "AICallOptions.apiKey (intent_options ''click it'' example_dom example_settings) \<noteq> []
   \<and> AICallOptions.provider (intent_options ''click it'' example_dom example_settings) \<in> {''claude'', ''openai''}
   \<and> length (filter is_model_request
        (snd (fst (callAI (answering ''ok'')
                     (intent_options ''click it'' example_dom example_settings) exhausted_limiter)))) = 1
   \<and> fst (callAI (answering ''ok'') (intent_options ''click it'' example_dom example_settings)
            exhausted_limiter)
       = fst (callAI (answering ''ok'') (intent_options ''click it'' example_dom example_settings)
            rateLimiter)"
proof -
  note th = callAI_ignores_limiter[of "answering ''ok''"
        "intent_options ''click it'' example_dom example_settings" exhausted_limiter rateLimiter]
  have k: "AICallOptions.apiKey (intent_options ''click it'' example_dom example_settings) \<noteq> []"
    and p: "AICallOptions.provider (intent_options ''click it'' example_dom example_settings)
       \<in> {''claude'', ''openai''}"
    by (simp_all add: intent_options_def example_settings_def DEFAULT_SETTINGS_def)
  have one: "length (filter is_model_request
        (snd (fst (callAI (answering ''ok'')
                     (intent_options ''click it'' example_dom example_settings) exhausted_limiter)))) = 1"
    by (rule th[THEN conjunct2, THEN conjunct2, THEN mp, OF conjI[OF k p]])
  show ?thesis
    using k p one th[THEN conjunct2, THEN conjunct1] by (intro conjI)
qed

section \<open>Intent Resolver: the fallback decision\<close>

lemma analyzeIntent_unfold:
  "fst (fst (analyzeIntent J remote command domContext settings limiter)) =
     Inr (case and_then (fst (fst (callAI remote (intent_options command domContext settings) limiter)))
                 (intent_from_response J command) of
            Inl e \<Rightarrow> fallback_intent command
          | Inr analysis \<Rightarrow> analysis)"
  by (simp add: analyzeIntent_def split: prod.splits)

lemma analyzeIntent_effects:
  "snd (fst (analyzeIntent J remote command domContext settings limiter)) =
     snd (fst (callAI remote (intent_options command domContext settings) limiter))"
  by (simp add: analyzeIntent_def split: prod.splits)

lemma analyzeIntent_call_failed:
  assumes "fst (fst (callAI remote (intent_options command domContext settings) limiter)) = Inl e"
  shows "fst (fst (analyzeIntent J remote command domContext settings limiter)) =
           Inr (fallback_intent command)"
  by (simp add: analyzeIntent_unfold assms and_then_def)

lemma analyzeIntent_no_block:
  assumes "fst (fst (callAI remote (intent_options command domContext settings) limiter)) = Inr response"
    and "match_json_block response = Inr None \<or> (\<exists>e. match_json_block response = Inl e)"
  shows "fst (fst (analyzeIntent J remote command domContext settings limiter)) =
           Inr (fallback_intent command)"
  using assms(2)
  by (auto simp add: analyzeIntent_unfold assms(1) and_then_def intent_from_response_def)

lemma analyzeIntent_unparseable:
  assumes "fst (fst (callAI remote (intent_options command domContext settings) limiter)) = Inr response"
    and "match_json_block response = Inr (Some m)" and "parse J (match0 m) = Inl e"
  shows "fst (fst (analyzeIntent J remote command domContext settings limiter)) =
           Inr (fallback_intent command)"
  by (simp add: analyzeIntent_unfold assms and_then_def intent_from_response_def)

text \<open>
  Claim C6. For every command, snapshot and settings, \<open>analyzeIntent\<close> resolves: it never
  throws. When the model call fails, or the response is not a string or holds no
  \<open>{...}\<close> block, or \<open>JSON.parse\<close> throws on the block, it returns the fallback decision
  \<open>clear = true\<close> with \<open>parsedIntent = {action: "click", target: command}\<close>.
\<close>

theorem analyzeIntent_falls_back:
  "(\<exists>analysis. fst (fst (analyzeIntent J remote command domContext settings limiter)) = Inr analysis)
   \<and> ((\<exists>e. fst (fst (callAI remote (intent_options command domContext settings) limiter)) = Inl e)
        \<or> (\<exists>response.
              fst (fst (callAI remote (intent_options command domContext settings) limiter)) = Inr response
              \<and> (match_json_block response = Inr None
                  \<or> (\<exists>e. match_json_block response = Inl e)
                  \<or> (\<exists>m e. match_json_block response = Inr (Some m) \<and> parse J (match0 m) = Inl e)))
      \<longrightarrow> fst (fst (analyzeIntent J remote command domContext settings limiter)) =
            Inr \<lparr>clear = JBool True, clarificationQuestion = JUndefined,
                 clarificationOptions = JUndefined,
                 parsedIntent = JObj [(''action'', JStr ''click''), (''target'', JStr command)]\<rparr>)"
proof (intro conjI impI)
  show "\<exists>analysis. fst (fst (analyzeIntent J remote command domContext settings limiter)) = Inr analysis"
    by (simp add: analyzeIntent_unfold)
next
  assume "(\<exists>e. fst (fst (callAI remote (intent_options command domContext settings) limiter)) = Inl e)
        \<or> (\<exists>response.
              fst (fst (callAI remote (intent_options command domContext settings) limiter)) = Inr response
              \<and> (match_json_block response = Inr None
                  \<or> (\<exists>e. match_json_block response = Inl e)
                  \<or> (\<exists>m e. match_json_block response = Inr (Some m) \<and> parse J (match0 m) = Inl e)))"
  then have "fst (fst (analyzeIntent J remote command domContext settings limiter)) =
           Inr (fallback_intent command)"
    using analyzeIntent_call_failed analyzeIntent_no_block analyzeIntent_unparseable
    by metis
  then show "fst (fst (analyzeIntent J remote command domContext settings limiter)) =
            Inr \<lparr>clear = JBool True, clarificationQuestion = JUndefined,
                 clarificationOptions = JUndefined,
                 parsedIntent = JObj [(''action'', JStr ''click''), (''target'', JStr command)]\<rparr>"
    by (simp add: fallback_intent_def)
qed

lemma answering_call:
  "reply \<noteq> [] \<Longrightarrow>
   fst (callAI (answering reply) (intent_options command domContext example_settings) limiter) =
     (Inr (JStr reply),
      [ModelRequest ''https://api.anthropic.com/v1/messages'' ''claude-3-5-haiku-20241022''
         INTENT_SYSTEM_PROMPT (intent_user_message command domContext)])"
  by (simp add: callAI_def callClaude_def claude_text_def and_then_def answering_def
      intent_options_def example_settings_def DEFAULT_SETTINGS_def Let_def)

lemma no_block_in_refusal: "match_json_block (JStr ''I cannot help with that.'') = Inr None"
  by (simp add: json_block_def exec_def rx_defs ch_defs)

lemma block_in_broken: "match_json_block (JStr ''{broken'') = Inr None"
  by (simp add: json_block_def exec_def rx_defs ch_defs)

theorem analyzeIntent_falls_back_witness:
  "fst (fst (callAI (answering ''I cannot help with that.'')
               (intent_options ''click submit'' example_dom example_settings) rateLimiter))
     = Inr (JStr ''I cannot help with that.'')
   \<and> match_json_block (JStr ''I cannot help with that.'') = Inr None
   \<and> fst (fst (analyzeIntent example_JSON (answering ''I cannot help with that.'') ''click submit''
                 example_dom example_settings rateLimiter)) =
       Inr \<lparr>clear = JBool True, clarificationQuestion = JUndefined,
            clarificationOptions = JUndefined,
            parsedIntent = JObj [(''action'', JStr ''click''), (''target'', JStr ''click submit'')]\<rparr>"
proof -
  have c: "fst (fst (callAI (answering ''I cannot help with that.'')
               (intent_options ''click submit'' example_dom example_settings) rateLimiter))
     = Inr (JStr ''I cannot help with that.'')"
    by (simp add: answering_call)
  have "\<exists>response.
          fst (fst (callAI (answering ''I cannot help with that.'')
               (intent_options ''click submit'' example_dom example_settings) rateLimiter)) = Inr response
          \<and> (match_json_block response = Inr None
              \<or> (\<exists>e. match_json_block response = Inl e)
              \<or> (\<exists>m e. match_json_block response = Inr (Some m) \<and> parse example_JSON (match0 m) = Inl e))"
    using c no_block_in_refusal by (intro exI[of _ "JStr ''I cannot help with that.''"]) simp
  then have hyp: "(\<exists>e. fst (fst (callAI (answering ''I cannot help with that.'')
               (intent_options ''click submit'' example_dom example_settings) rateLimiter)) = Inl e)
      \<or> (\<exists>response.
          fst (fst (callAI (answering ''I cannot help with that.'')
               (intent_options ''click submit'' example_dom example_settings) rateLimiter)) = Inr response
          \<and> (match_json_block response = Inr None
              \<or> (\<exists>e. match_json_block response = Inl e)
              \<or> (\<exists>m e. match_json_block response = Inr (Some m) \<and> parse example_JSON (match0 m) = Inl e)))"
    by (rule disjI2)
  have res: "fst (fst (analyzeIntent example_JSON (answering ''I cannot help with that.'') ''click submit''
                 example_dom example_settings rateLimiter)) =
       Inr \<lparr>clear = JBool True, clarificationQuestion = JUndefined,
            clarificationOptions = JUndefined,
            parsedIntent = JObj [(''action'', JStr ''click''), (''target'', JStr ''click submit'')]\<rparr>"
    by (rule analyzeIntent_falls_back[of example_JSON "answering ''I cannot help with that.''"
        "''click submit''" example_dom example_settings rateLimiter, THEN conjunct2, THEN mp, OF hyp])
  show ?thesis
    using c no_block_in_refusal res by (intro conjI)
qed

section \<open>Action Generator: entries without a kind are dropped\<close>

lemma get_member:
  "entry \<noteq> JNull \<Longrightarrow> entry \<noteq> JUndefined \<Longrightarrow> get entry name = Inr (member entry name)"
  by (cases entry) (simp_all add: member_def)

lemma make_action_of:
  "entry \<noteq> JNull \<Longrightarrow> entry \<noteq> JUndefined \<Longrightarrow> make_action entry = Inr (action_of entry)"
  by (simp add: make_action_def action_of_def get_member and_then_def)

lemma valid_actions_filter:
  "JNull \<notin> set entries \<Longrightarrow> JUndefined \<notin> set entries \<Longrightarrow>
   valid_actions entries = Inr (map action_of (filter has_kind entries))"
proof (induction entries)
  case Nil
  then show ?case by simp
next
  case (Cons entry entries)
  then have ne: "entry \<noteq> JNull" "entry \<noteq> JUndefined" by auto
  have kind: "truthy (member entry ''actionType'') = has_kind entry"
    by (simp add: has_kind_def)
  show ?case
    using Cons by (simp add: get_member[OF ne] make_action_of[OF ne] kind)
qed

lemma valid_actions_null_entry:
  "JNull \<notin> set pre \<Longrightarrow> JUndefined \<notin> set pre \<Longrightarrow>
   valid_actions (pre @ JNull # post) =
     Inl (TypeError (''Cannot read properties of null (reading '' @ [CHR 0x27] @ ''actionType''
                      @ [CHR 0x27] @ '')''))"
proof (induction pre)
  case Nil
  then show ?case by simp
next
  case (Cons entry pre)
  then have ne: "entry \<noteq> JNull" "entry \<noteq> JUndefined" by auto
  show ?case
    using Cons by (simp add: get_member[OF ne] make_action_of[OF ne])
qed

lemma generateCode_unfold:
  "fst (fst (generateCode J remote command intent domContext settings history limiter)) =
     Inr (case and_then (fst (fst (callAI remote
                     (codegen_options J command intent domContext settings history) limiter)))
                 (codegen_from_response J) of
            Inl e \<Rightarrow> \<lparr>success = False, actions = [], explanation = JStr ''Code generation failed'',
                       error = Some (JStr (error_message e))\<rparr>
          | Inr result \<Rightarrow> result)"
  by (simp add: generateCode_def split: prod.splits)

lemma generateCode_effects:
  "snd (fst (generateCode J remote command intent domContext settings history limiter)) =
     snd (fst (callAI remote (codegen_options J command intent domContext settings history) limiter))"
  by (simp add: generateCode_def split: prod.splits)

lemma codegen_from_response_success:
  "codegen_from_response J response = Inr result \<Longrightarrow> success result = (actions result \<noteq> [])"
  by (auto simp: codegen_from_response_def and_then_def
      split: sum.splits option.splits if_splits)

lemma generateCode_success_iff:
  "\<exists>result. fst (fst (generateCode J remote command intent domContext settings history limiter))
              = Inr result \<and> success result = (actions result \<noteq> [])"
proof (cases "and_then (fst (fst (callAI remote
                     (codegen_options J command intent domContext settings history) limiter)))
                 (codegen_from_response J)")
  case (Inl e)
  then show ?thesis by (simp add: generateCode_unfold)
next
  case (Inr result)
  then obtain response where "codegen_from_response J response = Inr result"
    by (auto simp: and_then_def split: sum.splits)
  then have "success result = (actions result \<noteq> [])"
    by (rule codegen_from_response_success)
  then show ?thesis using Inr by (simp add: generateCode_unfold)
qed

lemma generateCode_no_block:
  assumes "fst (fst (callAI remote (codegen_options J command intent domContext settings history)
                       limiter)) = Inr response"
    and "match_json_block response = Inr None"
  shows "fst (fst (generateCode J remote command intent domContext settings history limiter)) =
           Inr \<lparr>success = False, actions = [],
                explanation = JStr ''Failed to parse code generation response'',
                error = Some (JStr ''Invalid response format'')\<rparr>"
  by (simp add: generateCode_unfold assms and_then_def codegen_from_response_def)

lemma generateCode_filters:
  assumes "fst (fst (callAI remote (codegen_options J command intent domContext settings history)
                       limiter)) = Inr response"
    and "match_json_block response = Inr (Some m)"
    and "parse J (match0 m) = Inr parsed"
    and "get parsed ''success'' = Inr flag" and "truthy flag"
    and "get parsed ''actions'' = Inr (JArr entries)"
    and "JNull \<notin> set entries" and "JUndefined \<notin> set entries"
  shows "fst (fst (generateCode J remote command intent domContext settings history limiter)) =
           Inr \<lparr>success = (filter has_kind entries \<noteq> []),
                actions = map action_of (filter has_kind entries),
                explanation = or_else (member parsed ''explanation'') (JStr ''Generated actions''),
                error = None\<rparr>"
proof -
  have ne: "parsed \<noteq> JNull" "parsed \<noteq> JUndefined"
    using assms(4) by auto
  have expl: "get parsed ''explanation'' = Inr (member parsed ''explanation'')"
    by (rule get_member[OF ne])
  show ?thesis
    using assms(5)
    by (simp add: generateCode_unfold assms(1,2,3,4,6) expl and_then_def
        codegen_from_response_def or_else_def valid_actions_filter[OF assms(7,8)])
qed

lemma generateCode_null_entry:
  assumes "fst (fst (callAI remote (codegen_options J command intent domContext settings history)
                       limiter)) = Inr response"
    and "match_json_block response = Inr (Some m)"
    and "parse J (match0 m) = Inr parsed"
    and "get parsed ''success'' = Inr flag" and "truthy flag"
    and "get parsed ''actions'' = Inr (JArr (pre @ JNull # post))"
    and "JNull \<notin> set pre" and "JUndefined \<notin> set pre"
  shows "fst (fst (generateCode J remote command intent domContext settings history limiter)) =
           Inr \<lparr>success = False, actions = [], explanation = JStr ''Code generation failed'',
                error = Some (JStr (''Cannot read properties of null (reading '' @ [CHR 0x27]
                                     @ ''actionType'' @ [CHR 0x27] @ '')''))\<rparr>"
proof -
  have ne: "parsed \<noteq> JNull" "parsed \<noteq> JUndefined"
    using assms(4) by auto
  have expl: "get parsed ''explanation'' = Inr (member parsed ''explanation'')"
    by (rule get_member[OF ne])
  show ?thesis
    using assms(5)
    by (simp add: generateCode_unfold assms(1,2,3,4,6) expl and_then_def
        codegen_from_response_def or_else_def valid_actions_null_entry[OF assms(7,8)])
qed

lemma answering_codegen_call:
  "reply \<noteq> [] \<Longrightarrow>
   fst (callAI (answering reply)
          (codegen_options J command intent domContext example_settings history) limiter) =
     (Inr (JStr reply),
      [ModelRequest ''https://api.anthropic.com/v1/messages'' ''claude-sonnet-4-20250514''
         CODEGEN_SYSTEM_PROMPT (codegen_user_message J command intent domContext history)])"
  by (simp add: callAI_def callClaude_def claude_text_def and_then_def answering_def
      codegen_options_def example_settings_def DEFAULT_SETTINGS_def Let_def)

lemma batch_text_block:
  "\<exists>m. match_json_block (JStr batch_text) = Inr (Some m) \<and> match0 m = batch_text"
  by (simp add: batch_text_def json_block_def exec_def rx_defs ch_defs)

lemma null_batch_text_block:
  "\<exists>m. match_json_block (JStr null_batch_text) = Inr (Some m) \<and> match0 m = null_batch_text"
  by (simp add: null_batch_text_def json_block_def exec_def rx_defs ch_defs)

text \<open>
  Claim C7. For every model response, \<open>generateCode\<close> resolves with a result whose \<open>success\<close>
  is true if and only if its \<open>actions\<close> are not empty (\<open>generateCode_success_iff\<close>), a
  response without a JSON block gives \<open>success = false\<close> with a diagnostic explanation
  (\<open>generateCode_no_block\<close>), and an entry of the \<open>actions\<close> array that is an object without
  its kind is dropped while the others are kept (\<open>generateCode_filters\<close>). The code departs
  from the claim at an entry that is \<open>null\<close>: the validation loop tests \<open>!action.actionType\<close>
  to skip an entry without a kind, and reading \<open>actionType\<close> off \<open>null\<close> throws, so the
  \<open>catch\<close> block fails the whole batch. For the response
  \<open>{"success":true,"actions":[{"actionType":"click","selector":"el-5"},null]}\<close> the result is
  \<open>success = false\<close> with no actions and the message of the \<open>TypeError\<close>: the click action,
  which has its kind, is lost. With an object without a kind in place of \<open>null\<close>, the same
  batch gives \<open>success = true\<close> with the click action.
\<close>

theorem generateCode_null_entry_fails_batch:
  "fst (fst (callAI (answering null_batch_text)
               (codegen_options null_batch_JSON ''click the button'' JNull example_dom
                  example_settings [])
               rateLimiter)) = Inr (JStr null_batch_text)
   \<and> parse null_batch_JSON null_batch_text = Inr null_batch_value
   \<and> get null_batch_value ''success'' = Inr (JBool True)
   \<and> get null_batch_value ''actions'' =
        Inr (JArr [JObj [(''actionType'', JStr ''click''), (''selector'', JStr ''el-5'')], JNull])
   \<and> has_kind (JObj [(''actionType'', JStr ''click''), (''selector'', JStr ''el-5'')])
   \<and> \<not> has_kind JNull
   \<and> fst (fst (generateCode null_batch_JSON (answering null_batch_text) ''click the button'' JNull
                 example_dom example_settings [] rateLimiter)) =
       Inr \<lparr>success = False, actions = [], explanation = JStr ''Code generation failed'',
            error = Some (JStr (''Cannot read properties of null (reading '' @ [CHR 0x27]
                                 @ ''actionType'' @ [CHR 0x27] @ '')''))\<rparr>
   \<and> get batch_value ''actions'' =
        Inr (JArr [JObj [(''actionType'', JStr ''click''), (''selector'', JStr ''el-5'')],
                   JObj [(''description'', JStr ''no kind'')]])
   \<and> fst (fst (generateCode example_JSON (answering batch_text) ''click the button'' JNull
                 example_dom example_settings [] rateLimiter)) =
       Inr \<lparr>success = True,
            actions = [\<lparr>code = JUndefined, selector = JStr ''el-5'', actionType = JStr ''click'',
                        description = JStr ''Action'',
                        verification = JObj [(''type'', JStr ''none''), (''expectedResult'', JStr [])]\<rparr>],
            explanation = JStr ''Generated actions'', error = None\<rparr>"
proof -
  let ?click = "JObj [(''actionType'', JStr ''click''), (''selector'', JStr ''el-5'')]"
  let ?plain = "JObj [(''description'', JStr ''no kind'')]"
  let ?nopts = "codegen_options null_batch_JSON ''click the button'' JNull example_dom example_settings []"
  let ?opts = "codegen_options example_JSON ''click the button'' JNull example_dom example_settings []"
  have ncall: "fst (fst (callAI (answering null_batch_text) ?nopts rateLimiter))
                 = Inr (JStr null_batch_text)"
    by (simp add: answering_codegen_call null_batch_text_def)
  obtain n where n: "match_json_block (JStr null_batch_text) = Inr (Some n)"
      "match0 n = null_batch_text"
    using null_batch_text_block by blast
  have np: "parse null_batch_JSON (match0 n) = Inr null_batch_value"
    by (simp add: n(2) null_batch_JSON_def)
  have ns: "get null_batch_value ''success'' = Inr (JBool True)"
    and na: "get null_batch_value ''actions'' = Inr (JArr ([?click] @ JNull # []))"
    by (simp_all add: null_batch_value_def)
  have lost: "fst (fst (generateCode null_batch_JSON (answering null_batch_text) ''click the button''
                 JNull example_dom example_settings [] rateLimiter)) =
       Inr \<lparr>success = False, actions = [], explanation = JStr ''Code generation failed'',
            error = Some (JStr (''Cannot read properties of null (reading '' @ [CHR 0x27]
                                 @ ''actionType'' @ [CHR 0x27] @ '')''))\<rparr>"
    by (rule generateCode_null_entry[OF ncall n(1) np ns _ na]) simp_all
  have call: "fst (fst (callAI (answering batch_text) ?opts rateLimiter)) = Inr (JStr batch_text)"
    by (simp add: answering_codegen_call batch_text_def)
  obtain m where m: "match_json_block (JStr batch_text) = Inr (Some m)" "match0 m = batch_text"
    using batch_text_block by blast
  have p: "parse example_JSON (match0 m) = Inr batch_value"
    by (simp add: m(2) example_JSON_def)
  have s: "get batch_value ''success'' = Inr (JBool True)"
    and a: "get batch_value ''actions'' = Inr (JArr [?click, ?plain])"
    by (simp_all add: batch_value_def)
  have kept: "fst (fst (generateCode example_JSON (answering batch_text) ''click the button'' JNull
                 example_dom example_settings [] rateLimiter)) =
          Inr \<lparr>success = (filter has_kind [?click, ?plain] \<noteq> []),
               actions = map action_of (filter has_kind [?click, ?plain]),
               explanation = or_else (member batch_value ''explanation'') (JStr ''Generated actions''),
               error = None\<rparr>"
    by (rule generateCode_filters[OF call m(1) p s _ a]) simp_all
  have kinds: "has_kind ?click" "\<not> has_kind JNull" "\<not> has_kind ?plain"
    by (simp_all add: has_kind_def member_def)
  show ?thesis
    using ncall np ns na lost a kinds
    by (simp add: kept n(2) action_of_def member_def or_else_def batch_value_def)
qed

section \<open>The model stages call the model once\<close>

lemma analyzeIntent_requests:
  "length (filter is_model_request
      (snd (fst (analyzeIntent J remote command domContext settings limiter)))) \<le> 1"
  by (simp add: analyzeIntent_effects callAI_requests)

lemma generateCode_requests:
  "length (filter is_model_request
      (snd (fst (generateCode J remote command intent domContext settings history limiter)))) \<le> 1"
  by (simp add: generateCode_effects callAI_requests)

lemma analyzeIntent_malformed:
  assumes "fst (callAI remote (intent_options command domContext settings) limiter)
             = (Inr response, effects)"
    and "match_json_block response = Inr None"
  shows "fst (analyzeIntent J remote command domContext settings limiter)
           = (Inr (fallback_intent command), effects)"
    and "length (filter is_model_request effects) = 1"
proof -
  have r: "fst (fst (callAI remote (intent_options command domContext settings) limiter)) = Inr response"
    and e: "snd (fst (callAI remote (intent_options command domContext settings) limiter)) = effects"
    using assms(1) by simp_all
  have "fst (fst (analyzeIntent J remote command domContext settings limiter))
          = Inr (fallback_intent command)"
    using analyzeIntent_no_block[OF r] assms(2) by simp
  then show "fst (analyzeIntent J remote command domContext settings limiter)
           = (Inr (fallback_intent command), effects)"
    using e by (simp add: prod_eq_iff analyzeIntent_effects)
  show "length (filter is_model_request effects) = 1"
    using assms(1) by (rule callAI_resolved_once)
qed

lemma generateCode_malformed:
  assumes "fst (callAI remote (codegen_options J command intent domContext settings history) limiter)
             = (Inr response, effects)"
    and "match_json_block response = Inr None"
  shows "fst (generateCode J remote command intent domContext settings history limiter)
           = (Inr \<lparr>success = False, actions = [],
                   explanation = JStr ''Failed to parse code generation response'',
                   error = Some (JStr ''Invalid response format'')\<rparr>, effects)"
    and "length (filter is_model_request effects) = 1"
proof -
  have r: "fst (fst (callAI remote (codegen_options J command intent domContext settings history)
                       limiter)) = Inr response"
    and e: "snd (fst (callAI remote (codegen_options J command intent domContext settings history)
                       limiter)) = effects"
    using assms(1) by simp_all
  show "fst (generateCode J remote command intent domContext settings history limiter)
           = (Inr \<lparr>success = False, actions = [],
                   explanation = JStr ''Failed to parse code generation response'',
                   error = Some (JStr ''Invalid response format'')\<rparr>, effects)"
    using generateCode_no_block[OF r assms(2)] e by (simp add: prod_eq_iff generateCode_effects)
  show "length (filter is_model_request effects) = 1"
    using assms(1) by (rule callAI_resolved_once)
qed

text \<open>
  Claim C9, as stated, fails: on a response without any JSON block, \<open>analyzeIntent\<close> and
  \<open>generateCode\<close> have each sent one request to the model and no second one;
  \<open>analyzeIntent\<close> answers with the fallback decision and \<open>generateCode\<close> with its failed
  result.
\<close>

theorem no_reprompt_counterexample:
  "match_json_block (JStr ''I cannot help with that.'') = Inr None
   \<and> fst (analyzeIntent example_JSON (answering ''I cannot help with that.'') ''click submit''
            example_dom example_settings rateLimiter) =
       (Inr (fallback_intent ''click submit''),
        [ModelRequest ''https://api.anthropic.com/v1/messages'' ''claude-3-5-haiku-20241022''
           INTENT_SYSTEM_PROMPT (intent_user_message ''click submit'' example_dom)])
   \<and> fst (generateCode example_JSON (answering ''I cannot help with that.'') ''click submit'' JNull
            example_dom example_settings [] rateLimiter) =
       (Inr \<lparr>success = False, actions = [],
             explanation = JStr ''Failed to parse code generation response'',
             error = Some (JStr ''Invalid response format'')\<rparr>,
        [ModelRequest ''https://api.anthropic.com/v1/messages'' ''claude-sonnet-4-20250514''
           CODEGEN_SYSTEM_PROMPT
           (codegen_user_message example_JSON ''click submit'' JNull example_dom [])])"
proof (intro conjI)
  show "match_json_block (JStr ''I cannot help with that.'') = Inr None"
    by (rule no_block_in_refusal)
  show "fst (analyzeIntent example_JSON (answering ''I cannot help with that.'') ''click submit''
            example_dom example_settings rateLimiter) =
       (Inr (fallback_intent ''click submit''),
        [ModelRequest ''https://api.anthropic.com/v1/messages'' ''claude-3-5-haiku-20241022''
           INTENT_SYSTEM_PROMPT (intent_user_message ''click submit'' example_dom)])"
    by (rule analyzeIntent_malformed(1)[OF _ no_block_in_refusal]) (simp add: answering_call)
  show "fst (generateCode example_JSON (answering ''I cannot help with that.'') ''click submit'' JNull
            example_dom example_settings [] rateLimiter) =
       (Inr \<lparr>success = False, actions = [],
             explanation = JStr ''Failed to parse code generation response'',
             error = Some (JStr ''Invalid response format'')\<rparr>,
        [ModelRequest ''https://api.anthropic.com/v1/messages'' ''claude-sonnet-4-20250514''
           CODEGEN_SYSTEM_PROMPT
           (codegen_user_message example_JSON ''click submit'' JNull example_dom [])])"
    by (rule generateCode_malformed(1)[OF _ no_block_in_refusal]) (simp add: answering_codegen_call)
qed

text \<open>
  Claim C9, amended. A malformed model response triggers no re-prompt in the model
  stages. \<open>analyzeIntent\<close> and \<open>generateCode\<close> each send at most one request to the model
  per call. When the response holds no JSON block, exactly one request has been sent and
  the stage returns at once: \<open>analyzeIntent\<close> the fallback decision (the failure is not
  surfaced), \<open>generateCode\<close> a result with \<open>success = false\<close> and the error
  \<open>Invalid response format\<close>.
\<close>

theorem stages_call_model_once:
  "length (filter is_model_request
      (snd (fst (analyzeIntent J remote command domContext settings limiter)))) \<le> 1
   \<and> length (filter is_model_request
      (snd (fst (generateCode J remote command intent domContext settings history limiter)))) \<le> 1
   \<and> (fst (callAI remote (intent_options command domContext settings) limiter)
          = (Inr response, effects)
        \<and> match_json_block response = Inr None \<longrightarrow>
        fst (analyzeIntent J remote command domContext settings limiter)
          = (Inr (fallback_intent command), effects)
        \<and> length (filter is_model_request effects) = 1)
   \<and> (fst (callAI remote (codegen_options J command intent domContext settings history) limiter)
          = (Inr response', effects')
        \<and> match_json_block response' = Inr None \<longrightarrow>
        fst (generateCode J remote command intent domContext settings history limiter)
          = (Inr \<lparr>success = False, actions = [],
                  explanation = JStr ''Failed to parse code generation response'',
                  error = Some (JStr ''Invalid response format'')\<rparr>, effects')
        \<and> length (filter is_model_request effects') = 1)"
proof (intro conjI impI)
  assume a: "fst (callAI remote (intent_options command domContext settings) limiter)
          = (Inr response, effects)
        \<and> match_json_block response = Inr None"
  show "fst (analyzeIntent J remote command domContext settings limiter)
          = (Inr (fallback_intent command), effects)"
    by (rule analyzeIntent_malformed(1)[OF a[THEN conjunct1] a[THEN conjunct2]])
  show "length (filter is_model_request effects) = 1"
    by (rule analyzeIntent_malformed(2)[OF a[THEN conjunct1] a[THEN conjunct2]])
next
  assume g: "fst (callAI remote (codegen_options J command intent domContext settings history) limiter)
          = (Inr response', effects')
        \<and> match_json_block response' = Inr None"
  show "fst (generateCode J remote command intent domContext settings history limiter)
          = (Inr \<lparr>success = False, actions = [],
                  explanation = JStr ''Failed to parse code generation response'',
                  error = Some (JStr ''Invalid response format'')\<rparr>, effects')"
    by (rule generateCode_malformed(1)[OF g[THEN conjunct1] g[THEN conjunct2]])
  show "length (filter is_model_request effects') = 1"
    by (rule generateCode_malformed(2)[OF g[THEN conjunct1] g[THEN conjunct2]])
qed (rule analyzeIntent_requests generateCode_requests)+

theorem stages_call_model_once_witness:
  "fst (callAI (answering ''{broken'') (intent_options ''click submit'' example_dom example_settings)
          rateLimiter)
     = (Inr (JStr ''{broken''),
        [ModelRequest ''https://api.anthropic.com/v1/messages'' ''claude-3-5-haiku-20241022''
           INTENT_SYSTEM_PROMPT (intent_user_message ''click submit'' example_dom)])
   \<and> match_json_block (JStr ''{broken'') = Inr None
   \<and> fst (analyzeIntent example_JSON (answering ''{broken'') ''click submit'' example_dom
            example_settings rateLimiter)
       = (Inr (fallback_intent ''click submit''),
          [ModelRequest ''https://api.anthropic.com/v1/messages'' ''claude-3-5-haiku-20241022''
             INTENT_SYSTEM_PROMPT (intent_user_message ''click submit'' example_dom)])
   \<and> fst (generateCode example_JSON (answering ''{broken'') ''click submit'' JNull example_dom
            example_settings [] rateLimiter)
       = (Inr \<lparr>success = False, actions = [],
               explanation = JStr ''Failed to parse code generation response'',
               error = Some (JStr ''Invalid response format'')\<rparr>,
          [ModelRequest ''https://api.anthropic.com/v1/messages'' ''claude-sonnet-4-20250514''
             CODEGEN_SYSTEM_PROMPT
             (codegen_user_message example_JSON ''click submit'' JNull example_dom [])])"
proof -
  note th = stages_call_model_once[where J = example_JSON and remote = "answering ''{broken''"
      and command = "''click submit''" and domContext = example_dom and settings = example_settings
      and limiter = rateLimiter and intent = JNull and history = "[]"
      and response = "JStr ''{broken''" and response' = "JStr ''{broken''"]
  have c1: "fst (callAI (answering ''{broken'') (intent_options ''click submit'' example_dom example_settings)
          rateLimiter)
     = (Inr (JStr ''{broken''),
        [ModelRequest ''https://api.anthropic.com/v1/messages'' ''claude-3-5-haiku-20241022''
           INTENT_SYSTEM_PROMPT (intent_user_message ''click submit'' example_dom)])"
    by (simp add: answering_call)
  have c2: "fst (callAI (answering ''{broken'')
                   (codegen_options example_JSON ''click submit'' JNull example_dom example_settings [])
                   rateLimiter)
     = (Inr (JStr ''{broken''),
        [ModelRequest ''https://api.anthropic.com/v1/messages'' ''claude-sonnet-4-20250514''
           CODEGEN_SYSTEM_PROMPT
           (codegen_user_message example_JSON ''click submit'' JNull example_dom [])])"
    by (simp add: answering_codegen_call)
  have a: "fst (analyzeIntent example_JSON (answering ''{broken'') ''click submit'' example_dom
            example_settings rateLimiter)
       = (Inr (fallback_intent ''click submit''),
          [ModelRequest ''https://api.anthropic.com/v1/messages'' ''claude-3-5-haiku-20241022''
             INTENT_SYSTEM_PROMPT (intent_user_message ''click submit'' example_dom)])"
    using th[THEN conjunct2, THEN conjunct2, THEN conjunct1, THEN mp, OF conjI[OF c1 block_in_broken]]
    by (rule conjunct1)
  have g: "fst (generateCode example_JSON (answering ''{broken'') ''click submit'' JNull example_dom
            example_settings [] rateLimiter)
       = (Inr \<lparr>success = False, actions = [],
               explanation = JStr ''Failed to parse code generation response'',
               error = Some (JStr ''Invalid response format'')\<rparr>,
          [ModelRequest ''https://api.anthropic.com/v1/messages'' ''claude-sonnet-4-20250514''
             CODEGEN_SYSTEM_PROMPT
             (codegen_user_message example_JSON ''click submit'' JNull example_dom [])])"
    using th[THEN conjunct2, THEN conjunct2, THEN conjunct2, THEN mp, OF conjI[OF c2 block_in_broken]]
    by (rule conjunct1)
  show ?thesis
    using c1 block_in_broken a g by (intro conjI)
qed

section \<open>Pipeline Orchestrator: the retry bound\<close>











end
